theory Spec2Isabelle
  imports Main "HOL-Library.Word" "HOL-Library.List_Lexorder"
begin

unbundle bit_operations_syntax

section \<open>Bytes, slices and errors\<close>

type_synonym byte = "8 word"
type_synonym bytes = "byte list"

text \<open>
  Go's builtin \<^verbatim>\<open>copy(dst, src)\<close> overwrites the first
  \<open>min (len dst) (len src)\<close> bytes of \<open>dst\<close> and leaves the rest of it alone.
\<close>

definition copy :: "bytes \<Rightarrow> bytes \<Rightarrow> bytes" where
  "copy dst src = take (length dst) src @ drop (length src) dst"

text \<open>
  \<^verbatim>\<open>copy(buf[off:off+n], src)\<close>: a write through a sub-slice that shares the
  array of \<open>buf\<close>.
\<close>

definition copy_at :: "bytes \<Rightarrow> nat \<Rightarrow> nat \<Rightarrow> bytes \<Rightarrow> bytes" where
  "copy_at buf off n src =
     take off buf @ copy (take n (drop off buf)) src @ drop (off + n) buf"

text \<open>\<^verbatim>\<open>binary.LittleEndian.PutUint64\<close> and \<^verbatim>\<open>binary.LittleEndian.Uint64\<close>.\<close>

definition PutUint64 :: "64 word \<Rightarrow> bytes" where
  "PutUint64 v =
     [ucast v, ucast (drop_bit 8 v), ucast (drop_bit 16 v), ucast (drop_bit 24 v),
      ucast (drop_bit 32 v), ucast (drop_bit 40 v), ucast (drop_bit 48 v),
      ucast (drop_bit 56 v)]"

definition Uint64 :: "bytes \<Rightarrow> 64 word" where
  "Uint64 b =
     ucast (b ! 0) OR push_bit 8 (ucast (b ! 1)) OR push_bit 16 (ucast (b ! 2)) OR
     push_bit 24 (ucast (b ! 3)) OR push_bit 32 (ucast (b ! 4)) OR
     push_bit 40 (ucast (b ! 5)) OR push_bit 48 (ucast (b ! 6)) OR
     push_bit 56 (ucast (b ! 7))"

text \<open>
  The errors of the bolt key-value store that the two stores pass through: the
  documented failures of \<^verbatim>\<open>Bucket.Put\<close>, and a failed commit.
\<close>

datatype bolt_error =
    ErrKeyRequired
  | ErrKeyTooLarge
  | ErrValueTooLarge
  | ErrIncompatibleValue
  | ErrCommit

text \<open>
  The package's error values. \<open>ErrRootKeyNotExist\<close> is the
  \<^verbatim>\<open>fmt.Errorf("root key with id %s doesn't exist")\<close> of \<open>Get\<close>;
  \<open>ErrBolt\<close> wraps an error of the store and \<open>ErrExt\<close> an error of another
  library (time, snacl, crypto/rand), returned unchanged by the code.
\<close>

datatype 'e error =
    ErrMalformed
  | ErrAccNotFound
  | ErrAlreadyUnlocked
  | ErrStoreLocked
  | ErrPasswordRequired
  | ErrEncKeyNotFound
  | ErrRootKeyNotExist bytes
  | ErrBolt bolt_error
  | ErrExt 'e

section \<open>The bolt bucket and its transactions\<close>

text \<open>
  A bucket holds its keys in byte order. A key is bound to a value
  (\<open>Some v\<close>) or names a nested bucket (\<open>None\<close>), for which bolt's \<open>Get\<close> and
  \<open>ForEach\<close> give a nil value. Each store is created together with its own bucket
  (\<open>NewRootKeyStorage\<close>, \<open>NewAccountStorage\<close>), so the state of a store's
  database is the content of that bucket.
\<close>

type_synonym bucket = "(bytes \<times> bytes option) list"

definition MaxKeySize :: nat where "MaxKeySize = 32768"
definition MaxValueSize :: nat where "MaxValueSize = 2147483646"

text \<open>\<open>Bucket.Get\<close>: nil (here the empty slice) for a missing key or a nested bucket.\<close>

definition bucket_Get :: "bucket \<Rightarrow> bytes \<Rightarrow> bytes" where
  "bucket_Get b k = (case map_of b k of Some (Some v) \<Rightarrow> v | _ \<Rightarrow> [])"

fun put_sorted :: "bytes \<Rightarrow> bytes option \<Rightarrow> bucket \<Rightarrow> bucket" where
  "put_sorted k v [] = [(k, v)]"
| "put_sorted k v ((k', v') # kvs) =
     (if k' = k then (k, v) # kvs
      else if k < k' then (k, v) # (k', v') # kvs
      else (k', v') # put_sorted k v kvs)"

definition bucket_Put :: "bucket \<Rightarrow> bytes \<Rightarrow> bytes \<Rightarrow> bolt_error + bucket" where
  "bucket_Put b k v =
     (if length k = 0 then Inl ErrKeyRequired
      else if length k > MaxKeySize then Inl ErrKeyTooLarge
      else if length v > MaxValueSize then Inl ErrValueTooLarge
      else if map_of b k = Some None then Inl ErrIncompatibleValue
      else Inr (put_sorted k (Some v) b))"

text \<open>\<open>Bucket.ForEach\<close>: calls \<open>fn\<close> on every pair in key order and stops at the first error.\<close>

fun ForEach ::
  "(bytes \<Rightarrow> bytes option \<Rightarrow> 's \<Rightarrow> 's \<times> 'x option) \<Rightarrow> bucket \<Rightarrow> 's \<Rightarrow> 's \<times> 'x option" where
  "ForEach fn [] s = (s, None)"
| "ForEach fn ((k, v) # kvs) s =
     (case fn k v s of
        (s', Some e) \<Rightarrow> (s', Some e)
      | (s', None) \<Rightarrow> ForEach fn kvs s')"

text \<open>
  The model covers a store between its creation and \<open>Close\<close>, so a transaction
  always opens. What the environment decides about a read-write transaction is
  whether its commit goes through.
\<close>

record txenv =
  commitErr :: "bolt_error option"

text \<open>
  \<open>DB.View\<close> and \<open>DB.Update\<close> run a closure on the bucket. The closure also
  changes Go variables it captured (\<open>'s\<close>); a rollback undoes the writes to the
  bucket and nothing else. \<open>Update\<close> returns the closure's error, or else the error
  of the commit.
\<close>

definition View ::
  "(bucket \<Rightarrow> 's \<Rightarrow> 's \<times> 'e error option) \<Rightarrow> bucket \<Rightarrow> 's \<Rightarrow> 's \<times> 'e error option" where
  "View fn db s = fn db s"

definition Update ::
  "txenv \<Rightarrow> (bucket \<Rightarrow> 's \<Rightarrow> bucket \<times> 's \<times> 'e error option) \<Rightarrow> bucket \<Rightarrow> 's
     \<Rightarrow> bucket \<times> 's \<times> 'e error option" where
  "Update env fn db s =
     (case fn db s of
        (db', s', Some e) \<Rightarrow> (db, s', Some e)
      | (db', s', None) \<Rightarrow>
          (case commitErr env of
             Some e \<Rightarrow> (db, s', Some (ErrBolt e))
           | None \<Rightarrow> (db', s', None)))"

section \<open>Accounts\<close>

text \<open>
  \<open>time.Time\<close> belongs to Go's standard library. The account code uses its zero
  value, \<open>MarshalBinary\<close> and \<open>UnmarshalBinary\<close>; they are parameters of the model.
\<close>

record ('t, 'e) timelib =
  MarshalBinary :: "'t \<Rightarrow> 'e + bytes"
  UnmarshalBinary :: "bytes \<Rightarrow> 'e + 't"
  zeroTime :: 't

definition AccountIDLen :: nat where "AccountIDLen = 16"

text \<open>
  The constant block is
  \<^verbatim>\<open>const ( AccountIDLen = 16; OneTimeBalance AccountType = iota; PeriodicBalance )\<close>:
  \<open>iota\<close> counts the specifications of the block from 0, and \<open>AccountIDLen\<close> is the
  first of them.
\<close>

definition OneTimeBalance :: byte where "OneTimeBalance = 1"
definition PeriodicBalance :: byte where "PeriodicBalance = 2"

record 't OffChainBalanceAccount =
  ID :: bytes
  Type :: byte
  InitialBalance :: "64 word"
  CurrentBalance :: "64 word"
  LastUpdate :: 't
  ExpirationDate :: 't

text \<open>The zero value \<^verbatim>\<open>OffChainBalanceAccount{}\<close>; \<open>ID\<close> is a \<^verbatim>\<open>[16]byte\<close>.\<close>

definition emptyAccount :: "('t, 'e) timelib \<Rightarrow> 't OffChainBalanceAccount" where
  "emptyAccount tm =
     \<lparr>ID = replicate AccountIDLen 0, Type = 0, InitialBalance = 0, CurrentBalance = 0,
      LastUpdate = zeroTime tm, ExpirationDate = zeroTime tm\<rparr>"

definition Marshal :: "('t, 'e) timelib \<Rightarrow> 't OffChainBalanceAccount \<Rightarrow> 'e error + bytes" where
  "Marshal tm a =
     (let marshaled = replicate (AccountIDLen + 47) 0;
          marshaled = copy_at marshaled 0 AccountIDLen (ID a);
          marshaled = marshaled[AccountIDLen := Type a];
          marshaled = copy_at marshaled (AccountIDLen + 1) 8 (PutUint64 (InitialBalance a));
          marshaled = copy_at marshaled (AccountIDLen + 9) 8 (PutUint64 (CurrentBalance a))
      in case MarshalBinary tm (LastUpdate a) of
           Inl err \<Rightarrow> Inl (ErrExt err)
         | Inr lastUpdateMarshaled \<Rightarrow>
             (let marshaled = copy_at marshaled (AccountIDLen + 17) 15 lastUpdateMarshaled
              in case MarshalBinary tm (ExpirationDate a) of
                   Inl err \<Rightarrow> Inl (ErrExt err)
                 | Inr expirationDateMarshaled \<Rightarrow>
                     Inr (copy_at marshaled (AccountIDLen + 32) 15 expirationDateMarshaled)))"

text \<open>
  \<open>Unmarshal\<close> writes into its receiver and returns an error or nil: the model
  returns the receiver as the call leaves it, and the error.
\<close>

definition Unmarshal ::
  "('t, 'e) timelib \<Rightarrow> 't OffChainBalanceAccount \<Rightarrow> bytes
     \<Rightarrow> 't OffChainBalanceAccount \<times> 'e error option" where
  "Unmarshal tm a marshaled =
     (if length marshaled \<noteq> AccountIDLen + 47 then (a, Some ErrMalformed)
      else
        let a = a\<lparr>ID := copy (ID a) (take AccountIDLen marshaled)\<rparr>;
            marshaled = drop AccountIDLen marshaled;
            a = a\<lparr>Type := marshaled ! 0\<rparr>;
            marshaled = drop 1 marshaled;
            a = a\<lparr>InitialBalance := Uint64 (take 8 marshaled)\<rparr>;
            marshaled = drop 8 marshaled;
            a = a\<lparr>CurrentBalance := Uint64 (take 8 marshaled)\<rparr>;
            marshaled = drop 8 marshaled;
            a = a\<lparr>LastUpdate := zeroTime tm\<rparr>
        in case UnmarshalBinary tm (take 15 marshaled) of
             Inl err \<Rightarrow> (a, Some (ErrExt err))
           | Inr t \<Rightarrow>
               (let a = a\<lparr>LastUpdate := t\<rparr>;
                    marshaled = drop 15 marshaled;
                    a = a\<lparr>ExpirationDate := zeroTime tm\<rparr>
                in case UnmarshalBinary tm (take 15 marshaled) of
                     Inl err \<Rightarrow> (a, Some (ErrExt err))
                   | Inr t \<Rightarrow> (a\<lparr>ExpirationDate := t\<rparr>, None)))"

text \<open>
  \<open>NewAccount\<close>. The clock reading \<open>now\<close> and the outcome \<open>rnd\<close> of
  \<^verbatim>\<open>rand.Read(account.ID[:])\<close> (an error, or the bytes it put into the array) come
  from the environment.
\<close>

definition NewAccount ::
  "('t, 'e) timelib \<Rightarrow> txenv \<Rightarrow> 't \<Rightarrow> 'e + bytes \<Rightarrow> bucket \<Rightarrow> 64 word \<Rightarrow> 't
     \<Rightarrow> bucket \<times> ('e error + 't OffChainBalanceAccount)" where
  "NewAccount tm env now rnd db balance expirationDate =
     (let account = (emptyAccount tm)
            \<lparr>Type := OneTimeBalance, InitialBalance := balance, CurrentBalance := balance,
             LastUpdate := now, ExpirationDate := expirationDate\<rparr>
      in case rnd of
           Inl err \<Rightarrow> (db, Inl (ErrExt err))
         | Inr r \<Rightarrow>
             (let account = account\<lparr>ID := copy (ID account) r\<rparr> in
              case Update env
                     (\<lambda>bucket (u :: unit).
                        case Marshal tm account of
                          Inl err \<Rightarrow> (bucket, u, Some err)
                        | Inr accountBinary \<Rightarrow>
                            (case bucket_Put bucket (ID account) accountBinary of
                               Inl err \<Rightarrow> (bucket, u, Some (ErrBolt err))
                             | Inr bucket' \<Rightarrow> (bucket', u, None)))
                     db ()
              of (db', _, Some err) \<Rightarrow> (db', Inl err)
               | (db', _, None) \<Rightarrow> (db', Inr account)))"

definition GetAccount ::
  "('t, 'e) timelib \<Rightarrow> bucket \<Rightarrow> bytes \<Rightarrow> 'e error + 't OffChainBalanceAccount" where
  "GetAccount tm db id' =
     (case View
             (\<lambda>bucket accountBinary.
                let accountBinary = bucket_Get bucket id'
                in if length accountBinary = 0 then (accountBinary, Some ErrAccNotFound)
                   else (accountBinary, None))
             db []
      of (_, Some err) \<Rightarrow> Inl err
       | (accountBinary, None) \<Rightarrow>
           (case Unmarshal tm (emptyAccount tm) accountBinary of
              (_, Some err) \<Rightarrow> Inl err
            | (account, None) \<Rightarrow> Inr account))"

definition readFn ::
  "('t, 'e) timelib \<Rightarrow> bytes \<Rightarrow> bytes option \<Rightarrow> 't OffChainBalanceAccount list
     \<Rightarrow> 't OffChainBalanceAccount list \<times> 'e error option" where
  "readFn tm k v accounts =
     (case v of
        None \<Rightarrow> (accounts, None)
      | Some v \<Rightarrow>
          (case Unmarshal tm (emptyAccount tm) v of
             (_, Some err) \<Rightarrow> (accounts, Some err)
           | (account, None) \<Rightarrow> (accounts @ [account], None)))"

definition GetAccounts ::
  "('t, 'e) timelib \<Rightarrow> bucket \<Rightarrow> 'e error + 't OffChainBalanceAccount list" where
  "GetAccounts tm db =
     (case View (\<lambda>bucket accounts. ForEach (readFn tm) bucket accounts) db [] of
        (_, Some err) \<Rightarrow> Inl err
      | (accounts, None) \<Rightarrow> Inr accounts)"

section \<open>The root key store\<close>

text \<open>
  \<open>snacl.SecretKey\<close> belongs to btcwallet. Its deterministic methods are parameters
  of the model: \<open>sk_Unmarshal\<close> is \<open>Unmarshal\<close> on a fresh \<^verbatim>\<open>&snacl.SecretKey{}\<close>,
  \<open>sk_DeriveKey\<close> returns the key object as \<open>DeriveKey\<close> leaves it.
\<close>

record ('k, 'e) snacl =
  sk_Unmarshal :: "bytes \<Rightarrow> 'e + 'k"
  sk_DeriveKey :: "'k \<Rightarrow> bytes \<Rightarrow> 'e + 'k"
  sk_Marshal :: "'k \<Rightarrow> bytes"
  sk_Decrypt :: "'k \<Rightarrow> bytes \<Rightarrow> 'e + bytes"

text \<open>
  What the environment decides during one call: the transaction, and the calls that
  draw randomness, \<open>snacl.NewSecretKey\<close> with the default cost parameters (a salt),
  \<open>SecretKey.Encrypt\<close> (a nonce) and \<^verbatim>\<open>io.ReadFull(rand.Reader, rootKey[:])\<close>
  (an error, or the bytes it put into the slice).
\<close>

record ('k, 'e) rkenv =
  tx :: txenv
  NewSecretKey :: "bytes \<Rightarrow> 'e + 'k"
  sk_Encrypt :: "'k \<Rightarrow> bytes \<Rightarrow> 'e + bytes"
  randRead :: "'e + bytes"

definition RootKeyLen :: nat where "RootKeyLen = 32"

text \<open>\<^verbatim>\<open>[]byte("0")\<close> and \<^verbatim>\<open>[]byte("enckey")\<close>.\<close>

definition defaultRootKeyID :: bytes where "defaultRootKeyID = [0x30]"
definition encryptionKeyID :: bytes where
  "encryptionKeyID = [0x65, 0x6E, 0x63, 0x6B, 0x65, 0x79]"

text \<open>
  \<open>DB\<close> is the content of the bucket \<open>macrootkeys\<close>; \<open>encKey\<close> is \<open>None\<close> for a
  nil pointer, the Locked state.
\<close>

record 'k RootKeyStorage =
  DB :: bucket
  encKey :: "'k option"

text \<open>A password is a \<^verbatim>\<open>*[]byte\<close>: \<open>None\<close> is the nil pointer.\<close>

definition CreateUnlock ::
  "('k, 'e) snacl \<Rightarrow> ('k, 'e) rkenv \<Rightarrow> 'k RootKeyStorage \<Rightarrow> bytes option
     \<Rightarrow> 'k RootKeyStorage \<times> 'e error option" where
  "CreateUnlock c env r password =
     (if encKey r \<noteq> None then (r, Some ErrAlreadyUnlocked)
      else case password of
        None \<Rightarrow> (r, Some ErrPasswordRequired)
      | Some pw \<Rightarrow>
          (case Update (tx env)
                  (\<lambda>bucket r_encKey.
                     let dbKey = bucket_Get bucket encryptionKeyID in
                     if length dbKey > 0 then
                       (case sk_Unmarshal c dbKey of
                          Inl err \<Rightarrow> (bucket, r_encKey, Some (ErrExt err))
                        | Inr encKey0 \<Rightarrow>
                            (case sk_DeriveKey c encKey0 pw of
                               Inl err \<Rightarrow> (bucket, r_encKey, Some (ErrExt err))
                             | Inr encKey1 \<Rightarrow> (bucket, Some encKey1, None)))
                     else
                       (case NewSecretKey env pw of
                          Inl err \<Rightarrow> (bucket, r_encKey, Some (ErrExt err))
                        | Inr encKey1 \<Rightarrow>
                            (case bucket_Put bucket encryptionKeyID (sk_Marshal c encKey1) of
                               Inl err \<Rightarrow> (bucket, r_encKey, Some (ErrBolt err))
                             | Inr bucket' \<Rightarrow> (bucket', Some encKey1, None))))
                  (DB r) (encKey r)
           of (db', r_encKey, err) \<Rightarrow> (\<lparr>DB = db', encKey = r_encKey\<rparr>, err)))"

definition ChangePassword ::
  "('k, 'e) snacl \<Rightarrow> ('k, 'e) rkenv \<Rightarrow> 'k RootKeyStorage \<Rightarrow> bytes option \<Rightarrow> bytes option
     \<Rightarrow> 'k RootKeyStorage \<times> 'e error option" where
  "ChangePassword c env r oldPassword newPassword =
     (if encKey r = None then (r, Some ErrStoreLocked)
      else case (oldPassword, newPassword) of
        (Some old, Some new) \<Rightarrow>
          (case Update (tx env)
                  (\<lambda>bucket r_encKey.
                     let encKeyDb = bucket_Get bucket encryptionKeyID;
                         rootKeyDb = bucket_Get bucket defaultRootKeyID
                     in
                     if length encKeyDb = 0 \<or> length rootKeyDb = 0
                     then (bucket, r_encKey, Some ErrEncKeyNotFound)
                     else case sk_Unmarshal c encKeyDb of
                       Inl err \<Rightarrow> (bucket, r_encKey, Some (ErrExt err))
                     | Inr encKeyOld0 \<Rightarrow>
                     (case sk_DeriveKey c encKeyOld0 old of
                       Inl err \<Rightarrow> (bucket, r_encKey, Some (ErrExt err))
                     | Inr encKeyOld \<Rightarrow>
                     (case NewSecretKey env new of
                       Inl err \<Rightarrow> (bucket, r_encKey, Some (ErrExt err))
                     | Inr encKeyNew \<Rightarrow>
                     (case sk_Decrypt c encKeyOld rootKeyDb of
                       Inl err \<Rightarrow> (bucket, r_encKey, Some (ErrExt err))
                     | Inr decryptedKey \<Rightarrow>
                     (let rootKey = copy (replicate (length decryptedKey) 0) decryptedKey in
                      case sk_Encrypt env encKeyNew rootKey of
                       Inl err \<Rightarrow> (bucket, r_encKey, Some (ErrExt err))
                     | Inr encryptedKey \<Rightarrow>
                     (case bucket_Put bucket defaultRootKeyID encryptedKey of
                       Inl err \<Rightarrow> (bucket, r_encKey, Some (ErrBolt err))
                     | Inr bucket1 \<Rightarrow>
                     (case bucket_Put bucket1 encryptionKeyID (sk_Marshal c encKeyNew) of
                       Inl err \<Rightarrow> (bucket1, r_encKey, Some (ErrBolt err))
                     | Inr bucket2 \<Rightarrow> (bucket2, Some encKeyNew, None))))))))
                  (DB r) (encKey r)
           of (db', r_encKey, err) \<Rightarrow> (\<lparr>DB = db', encKey = r_encKey\<rparr>, err))
      | _ \<Rightarrow> (r, Some ErrPasswordRequired))"

text \<open>\<open>Get\<close> runs in a read-only transaction and leaves the store as it is.\<close>

definition Get ::
  "('k, 'e) snacl \<Rightarrow> 'k RootKeyStorage \<Rightarrow> bytes \<Rightarrow> 'e error + bytes" where
  "Get c r id' =
     (case encKey r of
        None \<Rightarrow> Inl ErrStoreLocked
      | Some r_encKey \<Rightarrow>
          (case View
                  (\<lambda>bucket rootKey.
                     let dbKey = bucket_Get bucket id' in
                     if length dbKey = 0 then (rootKey, Some (ErrRootKeyNotExist id'))
                     else case sk_Decrypt c r_encKey dbKey of
                       Inl err \<Rightarrow> (rootKey, Some (ErrExt err))
                     | Inr decKey \<Rightarrow> (copy (replicate (length decKey) 0) decKey, None))
                  (DB r) []
           of (_, Some err) \<Rightarrow> Inl err
            | (rootKey, None) \<Rightarrow> Inr rootKey))"

definition RootKey ::
  "('k, 'e) snacl \<Rightarrow> ('k, 'e) rkenv \<Rightarrow> 'k RootKeyStorage
     \<Rightarrow> 'k RootKeyStorage \<times> ('e error + bytes \<times> bytes)" where
  "RootKey c env r =
     (case encKey r of
        None \<Rightarrow> (r, Inl ErrStoreLocked)
      | Some r_encKey \<Rightarrow>
          (let id' = defaultRootKeyID in
           case Update (tx env)
                  (\<lambda>ns rootKey.
                     let dbKey = bucket_Get ns id' in
                     if length dbKey \<noteq> 0 then
                       (case sk_Decrypt c r_encKey dbKey of
                          Inl err \<Rightarrow> (ns, rootKey, Some (ErrExt err))
                        | Inr decKey \<Rightarrow> (ns, copy (replicate (length decKey) 0) decKey, None))
                     else
                       (case randRead env of
                          Inl err \<Rightarrow> (ns, replicate RootKeyLen 0, Some (ErrExt err))
                        | Inr rnd \<Rightarrow>
                            (let rootKey = copy (replicate RootKeyLen 0) rnd in
                             case sk_Encrypt env r_encKey rootKey of
                               Inl err \<Rightarrow> (ns, rootKey, Some (ErrExt err))
                             | Inr encKey' \<Rightarrow>
                                 (case bucket_Put ns id' encKey' of
                                    Inl err \<Rightarrow> (ns, rootKey, Some (ErrBolt err))
                                  | Inr ns' \<Rightarrow> (ns', rootKey, None)))))
                  (DB r) []
           of (db', _, Some err) \<Rightarrow> (r\<lparr>DB := db'\<rparr>, Inl err)
            | (db', rootKey, None) \<Rightarrow> (r\<lparr>DB := db'\<rparr>, Inr (rootKey, id'))))"

definition GenerateNewRootKey ::
  "('k, 'e) snacl \<Rightarrow> ('k, 'e) rkenv \<Rightarrow> 'k RootKeyStorage
     \<Rightarrow> 'k RootKeyStorage \<times> 'e error option" where
  "GenerateNewRootKey c env r =
     (case encKey r of
        None \<Rightarrow> (r, Some ErrStoreLocked)
      | Some r_encKey \<Rightarrow>
          (case Update (tx env)
                  (\<lambda>bucket (u :: unit).
                     case randRead env of
                       Inl err \<Rightarrow> (bucket, u, Some (ErrExt err))
                     | Inr rnd \<Rightarrow>
                         (let rootKey = copy (replicate RootKeyLen 0) rnd in
                          case sk_Encrypt env r_encKey rootKey of
                            Inl err \<Rightarrow> (bucket, u, Some (ErrExt err))
                          | Inr encryptedKey \<Rightarrow>
                              (case bucket_Put bucket defaultRootKeyID encryptedKey of
                                 Inl err \<Rightarrow> (bucket, u, Some (ErrBolt err))
                               | Inr bucket' \<Rightarrow> (bucket', u, None))))
                  (DB r) ()
           of (db', _, err) \<Rightarrow> (r\<lparr>DB := db'\<rparr>, err)))"

section \<open>Instances of the external libraries\<close>

text \<open>
  Concrete values for the parameters above, on which the model can be run. The first
  follows the version-1 binary encoding of Go's \<open>time.Time\<close>: a version byte,
  the seconds since year 1 and the nanoseconds in big-endian order, and the zone
  offset in minutes (\<open>-1\<close> for UTC). A time is its seconds, its nanoseconds, its
  zone (\<open>None\<close> for UTC, or the offset in seconds east of it) and, when it was
  read from the clock (\<open>time.Now\<close>, and what \<open>Add\<close> makes of it), a monotonic
  clock reading. The encoding does not carry the monotonic reading, and a decoded
  time has none.
\<close>

datatype time_error =
    ErrFractionalMinute
  | ErrUnexpectedZoneOffset
  | ErrNoData
  | ErrUnsupportedVersion
  | ErrInvalidLength

record gotime =
  sec :: "64 word"
  nsec :: "32 word"
  zone :: "int option"
  mono :: "64 word option"

definition timeBinaryVersion :: byte where "timeBinaryVersion = 1"

definition gotime_MarshalBinary :: "gotime \<Rightarrow> time_error + bytes" where
  "gotime_MarshalBinary t =
     (case (case zone t of
              None \<Rightarrow> Inr (- 1)
            | Some offset \<Rightarrow>
                if offset mod 60 \<noteq> 0 then Inl ErrFractionalMinute
                else let offset = offset div 60 in
                  if offset < - 32768 \<or> offset = - 1 \<or> offset > 32767
                  then Inl ErrUnexpectedZoneOffset
                  else Inr (word_of_int offset :: 16 word))
      of Inl err \<Rightarrow> Inl err
       | Inr offsetMin \<Rightarrow>
           Inr [timeBinaryVersion,
                ucast (drop_bit 56 (sec t)), ucast (drop_bit 48 (sec t)),
                ucast (drop_bit 40 (sec t)), ucast (drop_bit 32 (sec t)),
                ucast (drop_bit 24 (sec t)), ucast (drop_bit 16 (sec t)),
                ucast (drop_bit 8 (sec t)), ucast (sec t),
                ucast (drop_bit 24 (nsec t)), ucast (drop_bit 16 (nsec t)),
                ucast (drop_bit 8 (nsec t)), ucast (nsec t),
                ucast (drop_bit 8 offsetMin), ucast offsetMin])"

definition gotime_UnmarshalBinary :: "bytes \<Rightarrow> time_error + gotime" where
  "gotime_UnmarshalBinary data =
     (if length data = 0 then Inl ErrNoData
      else if data ! 0 \<noteq> timeBinaryVersion then Inl ErrUnsupportedVersion
      else if length data \<noteq> 1 + 8 + 4 + 2 then Inl ErrInvalidLength
      else
        let buf = drop 1 data;
            sec' = (ucast (buf ! 7) OR push_bit 8 (ucast (buf ! 6)) OR
                    push_bit 16 (ucast (buf ! 5)) OR push_bit 24 (ucast (buf ! 4)) OR
                    push_bit 32 (ucast (buf ! 3)) OR push_bit 40 (ucast (buf ! 2)) OR
                    push_bit 48 (ucast (buf ! 1)) OR push_bit 56 (ucast (buf ! 0)) :: 64 word);
            buf = drop 8 buf;
            nsec' = (ucast (buf ! 3) OR push_bit 8 (ucast (buf ! 2)) OR
                     push_bit 16 (ucast (buf ! 1)) OR push_bit 24 (ucast (buf ! 0)) :: 32 word);
            buf = drop 4 buf;
            offset = sint (ucast (buf ! 1) OR push_bit 8 (ucast (buf ! 0)) :: 16 word) * 60
        in Inr \<lparr>sec = sec', nsec = nsec',
                zone = (if offset = - 1 * 60 then None else Some offset), mono = None\<rparr>)"

definition gotime_lib :: "(gotime, time_error) timelib" where
  "gotime_lib =
     \<lparr>MarshalBinary = gotime_MarshalBinary, UnmarshalBinary = gotime_UnmarshalBinary,
      zeroTime = \<lparr>sec = 0, nsec = 0, zone = None, mono = None\<rparr>\<rparr>"

text \<open>
  The second stands in for \<open>snacl\<close>: a key object is its marshalled parameters and
  its key bytes (fewer than 256); the parameters record the password, \<open>DeriveKey\<close>
  refuses any other one, and a ciphertext is the plaintext behind the length of the
  key and the key, so that \<open>Decrypt\<close> accepts it under that key only.
\<close>

datatype snacl_error = ErrInvalidPassword | ErrSnaclMalformed | ErrDecryptFailed | ErrRandom

record SecretKey =
  Parameters :: bytes
  Key :: bytes

definition box_NewSecretKey :: "bytes \<Rightarrow> snacl_error + SecretKey" where
  "box_NewSecretKey password = Inr \<lparr>Parameters = 1 # password, Key = password\<rparr>"

definition box_Unmarshal :: "bytes \<Rightarrow> snacl_error + SecretKey" where
  "box_Unmarshal marshalled =
     (case marshalled of
        [] \<Rightarrow> Inl ErrSnaclMalformed
      | v # _ \<Rightarrow> if v = 1 then Inr \<lparr>Parameters = marshalled, Key = []\<rparr>
                 else Inl ErrSnaclMalformed)"

definition box_DeriveKey :: "SecretKey \<Rightarrow> bytes \<Rightarrow> snacl_error + SecretKey" where
  "box_DeriveKey sk password =
     (if Parameters sk = 1 # password then Inr (sk\<lparr>Key := password\<rparr>)
      else Inl ErrInvalidPassword)"

definition box_Encrypt :: "SecretKey \<Rightarrow> bytes \<Rightarrow> snacl_error + bytes" where
  "box_Encrypt sk plain =
     (if length (Key sk) < 256 then Inr (of_nat (length (Key sk)) # Key sk @ plain)
      else Inl ErrSnaclMalformed)"

definition box_Decrypt :: "SecretKey \<Rightarrow> bytes \<Rightarrow> snacl_error + bytes" where
  "box_Decrypt sk cipher =
     (case cipher of
        [] \<Rightarrow> Inl ErrSnaclMalformed
      | n # rest \<Rightarrow>
          if length (Key sk) < 256 \<and> n = of_nat (length (Key sk)) \<and>
             take (length (Key sk)) rest = Key sk
          then Inr (drop (length (Key sk)) rest)
          else Inl ErrDecryptFailed)"

definition box_snacl :: "(SecretKey, snacl_error) snacl" where
  "box_snacl =
     \<lparr>sk_Unmarshal = box_Unmarshal, sk_DeriveKey = box_DeriveKey,
      sk_Marshal = Parameters, sk_Decrypt = box_Decrypt\<rparr>"

text \<open>An environment in which \<open>rand\<close> gives the bytes \<open>rnd\<close> and the transaction \<open>t\<close>.\<close>

definition box_env :: "txenv \<Rightarrow> bytes \<Rightarrow> (SecretKey, snacl_error) rkenv" where
  "box_env t rnd =
     \<lparr>tx = t, NewSecretKey = box_NewSecretKey, sk_Encrypt = box_Encrypt,
      randRead = Inr rnd\<rparr>"

definition tx_ok :: txenv where
  "tx_ok = \<lparr>commitErr = None\<rparr>"

definition tx_commit_fails :: txenv where
  "tx_commit_fails = \<lparr>commitErr = Some ErrCommit\<rparr>"

text \<open>
  The account of the package's test: balance 9735, expiring 2018-07-02 15:44:00 UTC,
  created 2018-06-01 12:00:00 UTC.
\<close>

definition testExpDate :: gotime where
  "testExpDate = \<lparr>sec = 63666143040, nsec = 0, zone = None, mono = None\<rparr>"

definition testNow :: gotime where
  "testNow = \<lparr>sec = 63663451200, nsec = 0, zone = None, mono = None\<rparr>"

text \<open>
  The same two instants as the clock gives them: \<open>time.Now()\<close> at the creation, and
  an expiration date computed from the clock (\<open>time.Now().Add(d)\<close>).
\<close>

definition testClock :: gotime where
  "testClock = testNow\<lparr>mono := Some 1000\<rparr>"

definition testExpClock :: gotime where
  "testExpClock = testExpDate\<lparr>mono := Some 2000\<rparr>"

definition testID :: bytes where
  "testID = [1, 2, 3, 4, 5, 6, 7, 8, 9, 10, 11, 12, 13, 14, 15, 16]"

definition testAccount :: "gotime OffChainBalanceAccount" where
  "testAccount =
     \<lparr>ID = testID, Type = OneTimeBalance, InitialBalance = 9735, CurrentBalance = 9735,
      LastUpdate = testNow, ExpirationDate = testExpDate\<rparr>"

text \<open>The marshalled test account, with \<open>ty\<close> as its type byte.\<close>

definition testBlob :: "byte \<Rightarrow> bytes" where
  "testBlob ty =
     testID @ [ty] @ PutUint64 9735 @ PutUint64 9735 @
     [1, 0, 0, 0, 14, 210, 163, 44, 64, 0, 0, 0, 0, 255, 255] @
     [1, 0, 0, 0, 14, 210, 204, 63, 64, 0, 0, 0, 0, 255, 255]"

text \<open>
  A store unlocked with the password \<open>[5]\<close> that holds the root key \<open>[9, 9]\<close>, and
  the key object of the password \<open>pw\<close>.
\<close>

definition box_key :: "bytes \<Rightarrow> SecretKey" where
  "box_key pw = \<lparr>Parameters = 1 # pw, Key = pw\<rparr>"

definition testStore :: "SecretKey RootKeyStorage" where
  "testStore =
     \<lparr>DB = [(defaultRootKeyID, Some [1, 5, 9, 9]), (encryptionKeyID, Some [1, 5])],
      encKey = Some (box_key [5])\<rparr>"

definition lockedStore :: "SecretKey RootKeyStorage" where
  "lockedStore = \<lparr>DB = [], encKey = None\<rparr>"

text \<open>The same store before its first root key, and after its password became \<open>[6]\<close>.\<close>

definition unlockedStore :: "SecretKey RootKeyStorage" where
  "unlockedStore = \<lparr>DB = [(encryptionKeyID, Some [1, 5])], encKey = Some (box_key [5])\<rparr>"

definition changedStore :: "SecretKey RootKeyStorage" where
  "changedStore =
     \<lparr>DB = [(defaultRootKeyID, Some [1, 6, 9, 9]), (encryptionKeyID, Some [1, 6])],
      encKey = Some (box_key [6])\<rparr>"

section \<open>Slices and the fixed layout\<close>

lemma Uint64_PutUint64: "Uint64 (PutUint64 v) = v"
proof (rule bit_word_eqI)
  fix n assume "n < LENGTH(64)"
  then consider "n < 8" | "8 \<le> n" "n < 16" | "16 \<le> n" "n < 24" | "24 \<le> n" "n < 32"
    | "32 \<le> n" "n < 40" | "40 \<le> n" "n < 48" | "48 \<le> n" "n < 56" | "56 \<le> n" "n < 64"
    by fastforce
  then show "bit (Uint64 (PutUint64 v)) n = bit v n"
    by cases (simp_all add: Uint64_def PutUint64_def bit_simps less_diff_conv2)
qed

lemma length_PutUint64: "length (PutUint64 v) = 8"
  by (simp add: PutUint64_def)

lemma length_copy: "length (copy dst src) = length dst"
  by (simp add: copy_def)

lemma length_copy_at: "off + n \<le> length buf \<Longrightarrow> length (copy_at buf off n src) = length buf"
  by (simp add: copy_at_def length_copy)

lemma copy_same_length: "length src = length dst \<Longrightarrow> copy dst src = src"
  by (simp add: copy_def)

lemma copy_replicate: "copy (replicate (length src) 0) src = src"
  by (simp add: copy_def)

lemma copy_at_exact:
  "length src = n \<Longrightarrow> off + n \<le> length buf \<Longrightarrow>
   copy_at buf off n src = take off buf @ src @ drop (off + n) buf"
  by (simp add: copy_at_def copy_same_length)

lemma Marshal_length: "Marshal tm a = Inr m \<Longrightarrow> length m = 63"
  by (auto simp: Marshal_def Let_def AccountIDLen_def length_copy_at split: sum.splits)

lemma replicate_47: "replicate 47 (0::byte) = 0 # replicate 46 0"
proof -
  have "replicate (Suc 46) (0::byte) = 0 # replicate 46 0" by (rule replicate_Suc)
  then show ?thesis by simp
qed

text \<open>With a 16-byte ID and 15-byte timestamps, \<open>Marshal\<close> lays the six fields end to end.\<close>

lemma Marshal_eq:
  assumes id: "length (ID a) = AccountIDLen"
    and lu: "MarshalBinary tm (LastUpdate a) = Inr lu"
    and ex: "MarshalBinary tm (ExpirationDate a) = Inr ex"
  shows "Marshal tm a =
    Inr (ID a @ [Type a] @ PutUint64 (InitialBalance a) @ PutUint64 (CurrentBalance a) @
         copy (replicate 15 0) lu @ copy (replicate 15 0) ex)"
proof -
  let ?i = "ID a" and ?ib = "PutUint64 (InitialBalance a)" and ?cb = "PutUint64 (CurrentBalance a)"
  let ?lu = "copy (replicate 15 0) lu" and ?ex = "copy (replicate 15 0) ex"
  have len: "length ?i = 16" using id by (simp add: AccountIDLen_def)
  have m1: "copy_at (replicate (16 + 47) 0) 0 16 ?i = ?i @ replicate 47 0"
    using len by (simp add: copy_at_exact)
  have m2: "(?i @ replicate 47 0)[16 := Type a] = ?i @ [Type a] @ replicate 46 0"
    using len by (simp add: replicate_47 list_update_append)
  have m3: "copy_at (?i @ [Type a] @ replicate 46 0) (16 + 1) 8 ?ib
              = ?i @ [Type a] @ ?ib @ replicate 38 0"
    using len by (simp add: copy_at_exact length_PutUint64)
  have m4: "copy_at (?i @ [Type a] @ ?ib @ replicate 38 0) (16 + 9) 8 ?cb
              = ?i @ [Type a] @ ?ib @ ?cb @ replicate 30 0"
    using len by (simp add: copy_at_exact length_PutUint64)
  have m5: "copy_at (?i @ [Type a] @ ?ib @ ?cb @ replicate 30 0) (16 + 17) 15 lu
              = ?i @ [Type a] @ ?ib @ ?cb @ ?lu @ replicate 15 0"
    using len by (simp add: copy_at_def length_PutUint64)
  have m6: "copy_at (?i @ [Type a] @ ?ib @ ?cb @ ?lu @ replicate 15 0) (16 + 32) 15 ex
              = ?i @ [Type a] @ ?ib @ ?cb @ ?lu @ ?ex"
    using len by (simp add: copy_at_def length_PutUint64 length_copy)
  show ?thesis
    using m1 m2 m3 m4 m5 m6 lu ex
    by (simp add: Marshal_def Let_def AccountIDLen_def)
qed

lemma Marshal_success:
  assumes "Marshal tm a = Inr m"
  shows "\<exists>lu ex. MarshalBinary tm (LastUpdate a) = Inr lu \<and>
                 MarshalBinary tm (ExpirationDate a) = Inr ex"
  using assms by (auto simp: Marshal_def Let_def split: sum.splits)

text \<open>
  What \<open>Unmarshal\<close> does on a blob of 63 bytes, by the outcome of the two timestamp
  decodings.
\<close>

lemma Unmarshal_63:
  assumes r: "length (ID r) = AccountIDLen" and m: "length m = 63"
  shows "Unmarshal tm r m =
    (let a = r\<lparr>ID := take 16 m, Type := m ! 16, InitialBalance := Uint64 (take 8 (drop 17 m)),
                CurrentBalance := Uint64 (take 8 (drop 25 m)), LastUpdate := zeroTime tm\<rparr>
     in case UnmarshalBinary tm (take 15 (drop 33 m)) of
          Inl err \<Rightarrow> (a, Some (ErrExt err))
        | Inr t \<Rightarrow>
            (case UnmarshalBinary tm (drop 48 m) of
               Inl err \<Rightarrow> (a\<lparr>LastUpdate := t, ExpirationDate := zeroTime tm\<rparr>, Some (ErrExt err))
             | Inr t' \<Rightarrow> (a\<lparr>LastUpdate := t, ExpirationDate := t'\<rparr>, None)))"
  using assms
  by (simp add: Unmarshal_def Let_def AccountIDLen_def copy_same_length split: sum.splits)

section \<open>Marshal and Unmarshal\<close>

text \<open>
  The round trip through the blob, for a 16-byte ID and timestamps that the time
  library marshals, to \<open>lu\<close> and \<open>ex\<close>. Each encoding is copied into a field of 15
  bytes, and \<open>Unmarshal\<close> gives the content of that field to \<open>UnmarshalBinary\<close>.
\<close>

lemma Unmarshal_Marshal:
  assumes a: "length (ID a) = AccountIDLen" and r: "length (ID r) = AccountIDLen"
    and lu: "MarshalBinary tm (LastUpdate a) = Inr lu"
    and ex: "MarshalBinary tm (ExpirationDate a) = Inr ex"
  shows "\<exists>m. Marshal tm a = Inr m \<and> length m = 63 \<and>
             Unmarshal tm r m =
               (case UnmarshalBinary tm (copy (replicate 15 0) lu) of
                  Inl err \<Rightarrow>
                    (a\<lparr>LastUpdate := zeroTime tm, ExpirationDate := ExpirationDate r\<rparr>,
                     Some (ErrExt err))
                | Inr lu' \<Rightarrow>
                    (case UnmarshalBinary tm (copy (replicate 15 0) ex) of
                       Inl err \<Rightarrow>
                         (a\<lparr>LastUpdate := lu', ExpirationDate := zeroTime tm\<rparr>,
                          Some (ErrExt err))
                     | Inr ex' \<Rightarrow> (a\<lparr>LastUpdate := lu', ExpirationDate := ex'\<rparr>, None)))"
proof -
  let ?m = "ID a @ [Type a] @ PutUint64 (InitialBalance a) @ PutUint64 (CurrentBalance a) @
            copy (replicate 15 0) lu @ copy (replicate 15 0) ex"
  have i: "length (ID a) = 16" using a by (simp add: AccountIDLen_def)
  have m: "Marshal tm a = Inr ?m"
    using a lu ex by (rule Marshal_eq)
  have len: "length ?m = 63"
    using i by (simp add: length_PutUint64 length_copy)
  have "Unmarshal tm r ?m =
          (case UnmarshalBinary tm (copy (replicate 15 0) lu) of
             Inl err \<Rightarrow>
               (a\<lparr>LastUpdate := zeroTime tm, ExpirationDate := ExpirationDate r\<rparr>,
                Some (ErrExt err))
           | Inr lu' \<Rightarrow>
               (case UnmarshalBinary tm (copy (replicate 15 0) ex) of
                  Inl err \<Rightarrow>
                    (a\<lparr>LastUpdate := lu', ExpirationDate := zeroTime tm\<rparr>, Some (ErrExt err))
                | Inr ex' \<Rightarrow> (a\<lparr>LastUpdate := lu', ExpirationDate := ex'\<rparr>, None)))"
    unfolding Unmarshal_63 [OF r len]
    using i
    by (simp add: Let_def length_PutUint64 length_copy Uint64_PutUint64 nth_append
        split: sum.splits)
  with m len show ?thesis by blast
qed

section \<open>The time instance\<close>

text \<open>
  In the instance, every time that \<open>MarshalBinary\<close> accepts is encoded in 15 bytes,
  and \<open>UnmarshalBinary\<close> reads it back without its monotonic reading.
\<close>

lemma be64_read_back: "(ucast (ucast v :: byte) OR push_bit 8 (ucast (ucast (drop_bit 8 v) :: byte)) OR
   push_bit 16 (ucast (ucast (drop_bit 16 v) :: byte)) OR push_bit 24 (ucast (ucast (drop_bit 24 v) :: byte)) OR
   push_bit 32 (ucast (ucast (drop_bit 32 v) :: byte)) OR push_bit 40 (ucast (ucast (drop_bit 40 v) :: byte)) OR
   push_bit 48 (ucast (ucast (drop_bit 48 v) :: byte)) OR push_bit 56 (ucast (ucast (drop_bit 56 v) :: byte)) :: 64 word) = v"
  using Uint64_PutUint64 [of v] by (simp add: Uint64_def PutUint64_def)

lemma be32_read_back: "(ucast (ucast v :: byte) OR push_bit 8 (ucast (ucast (drop_bit 8 v) :: byte)) OR
   push_bit 16 (ucast (ucast (drop_bit 16 v) :: byte)) OR push_bit 24 (ucast (ucast (drop_bit 24 v) :: byte)) :: 32 word) = v"
proof (rule bit_word_eqI)
  fix n assume "n < LENGTH(32)"
  then consider "n < 8" | "8 \<le> n" "n < 16" | "16 \<le> n" "n < 24" | "24 \<le> n" "n < 32"
    by fastforce
  then show "bit (ucast (ucast v :: byte) OR push_bit 8 (ucast (ucast (drop_bit 8 v) :: byte)) OR
   push_bit 16 (ucast (ucast (drop_bit 16 v) :: byte)) OR push_bit 24 (ucast (ucast (drop_bit 24 v) :: byte)) :: 32 word) n = bit v n"
    by cases (simp_all add: bit_simps less_diff_conv2)
qed

lemma be16_read_back: "(ucast (ucast v :: byte) OR push_bit 8 (ucast (ucast (drop_bit 8 v) :: byte)) :: 16 word) = v"
proof (rule bit_word_eqI)
  fix n assume "n < LENGTH(16)"
  then consider "n < 8" | "8 \<le> n" "n < 16"
    by fastforce
  then show "bit (ucast (ucast v :: byte) OR push_bit 8 (ucast (ucast (drop_bit 8 v) :: byte)) :: 16 word) n = bit v n"
    by cases (simp_all add: bit_simps less_diff_conv2)
qed

lemma sint_int16: "- 32768 \<le> m \<Longrightarrow> m \<le> 32767 \<Longrightarrow> sint (word_of_int m :: 16 word) = m"
proof -
  have "sint (word_of_int m :: 16 word) = (m + 32768) mod 65536 - 32768"
    by (simp add: int_word_sint)
  also assume "- 32768 \<le> m" "m \<le> 32767"
  then have "(m + 32768) mod 65536 - 32768 = m" by simp
  finally show ?thesis .
qed


lemma gotime_read_back:
  assumes "gotime_MarshalBinary t = Inr bs"
  shows "length bs = 15 \<and>
         gotime_UnmarshalBinary (copy (replicate 15 0) bs) = Inr (t\<lparr>mono := None\<rparr>)"
proof -
  define w :: "16 word" where
    "w = (case zone t of None \<Rightarrow> - 1 | Some offset \<Rightarrow> word_of_int (offset div 60))"
  have z: "(if sint w * 60 = - 60 then None else Some (sint w * 60)) = zone t"
  proof (cases "zone t")
    case None
    then show ?thesis by (simp add: w_def)
  next
    case (Some off)
    with assms have m: "off mod 60 = 0" "- 32768 \<le> off div 60" "off div 60 \<noteq> - 1"
      "off div 60 \<le> 32767"
      by (auto simp: gotime_MarshalBinary_def Let_def split: if_splits)
    then have "sint w = off div 60"
      by (simp add: w_def Some sint_int16)
    moreover from m have "off div 60 * 60 = off" by auto
    moreover from m have "off \<noteq> - 60" by auto
    ultimately show ?thesis by (simp add: Some)
  qed
  from assms have bs: "bs = [1,
                ucast (drop_bit 56 (sec t)), ucast (drop_bit 48 (sec t)),
                ucast (drop_bit 40 (sec t)), ucast (drop_bit 32 (sec t)),
                ucast (drop_bit 24 (sec t)), ucast (drop_bit 16 (sec t)),
                ucast (drop_bit 8 (sec t)), ucast (sec t),
                ucast (drop_bit 24 (nsec t)), ucast (drop_bit 16 (nsec t)),
                ucast (drop_bit 8 (nsec t)), ucast (nsec t),
                ucast (drop_bit 8 w), ucast w]"
    by (auto simp: gotime_MarshalBinary_def timeBinaryVersion_def w_def Let_def
        simp del: drop_bit_minus_one split: option.splits if_splits)
  have c: "copy (replicate 15 0) bs = bs"
    by (simp add: bs copy_def)
  have "gotime_UnmarshalBinary bs =
          Inr \<lparr>sec = sec t, nsec = nsec t,
               zone = (if sint w * 60 = - 60 then None else Some (sint w * 60)), mono = None\<rparr>"
    by (simp add: bs gotime_UnmarshalBinary_def timeBinaryVersion_def Let_def be64_read_back be32_read_back be16_read_back)
  also have "\<dots> = Inr (t\<lparr>mono := None\<rparr>)"
    unfolding z by simp
  finally show ?thesis
    by (simp add: c) (simp add: bs)
qed

text \<open>So an account over the instance comes back with its timestamps read back so.\<close>

lemma gotime_Unmarshal_Marshal:
  assumes a: "length (ID a) = AccountIDLen" and r: "length (ID r) = AccountIDLen"
    and m: "Marshal gotime_lib a = Inr m"
  shows "Unmarshal gotime_lib r m =
           (a\<lparr>LastUpdate := (LastUpdate a)\<lparr>mono := None\<rparr>,
              ExpirationDate := (ExpirationDate a)\<lparr>mono := None\<rparr>\<rparr>, None)"
proof -
  from Marshal_success [OF m] obtain lu ex
    where lu: "MarshalBinary gotime_lib (LastUpdate a) = Inr lu"
      and ex: "MarshalBinary gotime_lib (ExpirationDate a) = Inr ex"
    by blast
  from lu ex have "gotime_MarshalBinary (LastUpdate a) = Inr lu"
    and "gotime_MarshalBinary (ExpirationDate a) = Inr ex"
    by (simp_all add: gotime_lib_def)
  then have "UnmarshalBinary gotime_lib (copy (replicate 15 0) lu)
               = Inr ((LastUpdate a)\<lparr>mono := None\<rparr>)"
    and "UnmarshalBinary gotime_lib (copy (replicate 15 0) ex)
               = Inr ((ExpirationDate a)\<lparr>mono := None\<rparr>)"
    using gotime_read_back by (simp_all add: gotime_lib_def)
  with Unmarshal_Marshal [OF a r lu ex] m show ?thesis
    by auto
qed

section \<open>The round trip of an account\<close>

text \<open>The bytes of the zone offset \<open>-1\<close> that marks UTC.\<close>

lemma ucast_minus_1_byte: "(ucast (- 1 :: 16 word) :: 8 word) = 255"
  by code_simp

lemma ucast_mask_8_byte: "(ucast (mask 8 :: 16 word) :: 8 word) = 255"
  by code_simp

text \<open>The blob of the test account decodes to it, whatever its type byte.\<close>

lemma length_ID_emptyAccount: "length (ID (emptyAccount tm)) = AccountIDLen"
  by (simp add: emptyAccount_def)

lemma Unmarshal_testBlob:
  "Unmarshal gotime_lib (emptyAccount gotime_lib) (testBlob ty) = (testAccount\<lparr>Type := ty\<rparr>, None)"
  by (simp add: Unmarshal_def Let_def testBlob_def testAccount_def testID_def testNow_def
      testExpDate_def emptyAccount_def AccountIDLen_def gotime_lib_def copy_def
      gotime_UnmarshalBinary_def timeBinaryVersion_def length_PutUint64 Uint64_PutUint64)

text \<open>
  Claim C1, as stated, fails for a marshalable timestamp that the encoding does not
  carry whole. The account that \<open>NewAccount\<close> builds has \<open>time.Now()\<close> as its
  \<open>LastUpdate\<close>, with a monotonic clock reading: \<open>MarshalBinary\<close> accepts it,
  \<open>Marshal\<close> gives the 63 bytes of the test account, and \<open>Unmarshal\<close> of them
  returns the test account, whose \<open>LastUpdate\<close> has no monotonic reading and so
  is not the field that was marshalled.
\<close>

theorem roundtrip_counterexample:
  "MarshalBinary gotime_lib (LastUpdate (testAccount\<lparr>LastUpdate := testClock\<rparr>))
     = Inr [1, 0, 0, 0, 14, 210, 163, 44, 64, 0, 0, 0, 0, 255, 255] \<and>
   Marshal gotime_lib (testAccount\<lparr>LastUpdate := testClock\<rparr>) = Inr (testBlob 1) \<and>
   Unmarshal gotime_lib (emptyAccount gotime_lib) (testBlob 1) = (testAccount, None) \<and>
   LastUpdate testAccount \<noteq> LastUpdate (testAccount\<lparr>LastUpdate := testClock\<rparr>)"
proof -
  have "Marshal gotime_lib (testAccount\<lparr>LastUpdate := testClock\<rparr>) = Inr (testBlob 1)"
    using Marshal_eq [of "testAccount\<lparr>LastUpdate := testClock\<rparr>" gotime_lib
        "[1, 0, 0, 0, 14, 210, 163, 44, 64, 0, 0, 0, 0, 255, 255]"
        "[1, 0, 0, 0, 14, 210, 204, 63, 64, 0, 0, 0, 0, 255, 255]"]
    by (simp add: testAccount_def testID_def testNow_def testClock_def testExpDate_def
        testBlob_def AccountIDLen_def gotime_lib_def gotime_MarshalBinary_def
        timeBinaryVersion_def ucast_minus_1_byte ucast_mask_8_byte OneTimeBalance_def copy_def)
  moreover have "Unmarshal gotime_lib (emptyAccount gotime_lib) (testBlob 1) = (testAccount, None)"
    using Unmarshal_testBlob [of 1] by (simp add: testAccount_def OneTimeBalance_def)
  ultimately show ?thesis
    by (simp add: testAccount_def testNow_def testClock_def gotime_lib_def
        gotime_MarshalBinary_def timeBinaryVersion_def ucast_minus_1_byte ucast_mask_8_byte)
qed

text \<open>
  Claim C1, amended. For an account whose ID fills its 16-byte array and whose two
  timestamps are marshalable (\<open>MarshalBinary\<close> returns their encodings \<open>lu\<close> and
  \<open>ex\<close>), \<open>Marshal\<close> succeeds with a blob of exactly 63 bytes. \<open>Unmarshal\<close> of
  that blob into any receiver reconstructs \<open>ID\<close>, \<open>Type\<close>, \<open>InitialBalance\<close> and
  \<open>CurrentBalance\<close>, and sets \<open>LastUpdate\<close> and \<open>ExpirationDate\<close> to what
  \<open>UnmarshalBinary\<close> reads back from the 15-byte fields that hold the encodings;
  it returns an error only if \<open>UnmarshalBinary\<close> does, and that error. So a
  timestamp is reconstructed as far as the time library reads it back: in the
  instance, without its monotonic reading.
\<close>

theorem Marshal_Unmarshal_roundtrip:
  assumes "length (ID a) = AccountIDLen" and "length (ID r) = AccountIDLen"
    and "MarshalBinary tm (LastUpdate a) = Inr lu"
    and "MarshalBinary tm (ExpirationDate a) = Inr ex"
  shows "\<exists>m. Marshal tm a = Inr m \<and> length m = 63 \<and>
             Unmarshal tm r m =
               (case UnmarshalBinary tm (copy (replicate 15 0) lu) of
                  Inl err \<Rightarrow>
                    (a\<lparr>LastUpdate := zeroTime tm, ExpirationDate := ExpirationDate r\<rparr>,
                     Some (ErrExt err))
                | Inr lu' \<Rightarrow>
                    (case UnmarshalBinary tm (copy (replicate 15 0) ex) of
                       Inl err \<Rightarrow>
                         (a\<lparr>LastUpdate := lu', ExpirationDate := zeroTime tm\<rparr>,
                          Some (ErrExt err))
                     | Inr ex' \<Rightarrow> (a\<lparr>LastUpdate := lu', ExpirationDate := ex'\<rparr>, None)))"
  using assms by (rule Unmarshal_Marshal)

theorem Marshal_Unmarshal_roundtrip_witness:
  "length (ID testAccount) = AccountIDLen \<and>
   MarshalBinary gotime_lib (LastUpdate testAccount)
     = Inr [1, 0, 0, 0, 14, 210, 163, 44, 64, 0, 0, 0, 0, 255, 255] \<and>
   MarshalBinary gotime_lib (ExpirationDate testAccount)
     = Inr [1, 0, 0, 0, 14, 210, 204, 63, 64, 0, 0, 0, 0, 255, 255] \<and>
   (\<exists>m. Marshal gotime_lib testAccount = Inr m \<and> length m = 63 \<and>
        Unmarshal gotime_lib (emptyAccount gotime_lib) m = (testAccount, None))"
  using Marshal_Unmarshal_roundtrip
    [of testAccount "emptyAccount gotime_lib" gotime_lib
        "[1, 0, 0, 0, 14, 210, 163, 44, 64, 0, 0, 0, 0, 255, 255]"
        "[1, 0, 0, 0, 14, 210, 204, 63, 64, 0, 0, 0, 0, 255, 255]"]
  by (simp add: testAccount_def testID_def testNow_def testExpDate_def emptyAccount_def
      AccountIDLen_def gotime_lib_def gotime_MarshalBinary_def gotime_UnmarshalBinary_def
      timeBinaryVersion_def ucast_minus_1_byte ucast_mask_8_byte copy_def)

text \<open>
  Claim C9, as stated, reads the type byte with \<open>0\<close> for OneTime and \<open>1\<close> for
  Periodic. The constants of the code are \<open>1\<close> and \<open>2\<close>: in the blob of the test
  account, a type byte \<open>0\<close> decodes without error to a type that is not
  \<open>OneTimeBalance\<close>, and a type byte \<open>2\<close>, outside \<open>{0, 1}\<close>, decodes to
  \<open>PeriodicBalance\<close>.
\<close>

theorem type_byte_values_counterexample:
  "Unmarshal gotime_lib (emptyAccount gotime_lib) (testBlob 0) = (testAccount\<lparr>Type := 0\<rparr>, None) \<and>
   (0 :: byte) \<noteq> OneTimeBalance \<and>
   Unmarshal gotime_lib (emptyAccount gotime_lib) (testBlob 2)
     = (testAccount\<lparr>Type := PeriodicBalance\<rparr>, None)"
  by (simp add: Unmarshal_testBlob OneTimeBalance_def PeriodicBalance_def)

text \<open>
  Claim C9, amended. For every 63-byte blob and every value \<open>v\<close> of its type byte
  (offset 16), also outside \<open>{1 = OneTimeBalance, 2 = PeriodicBalance}\<close>,
  \<open>Unmarshal\<close> stores \<open>v\<close> as the account's \<open>Type\<close>, and returns the error, or
  none, that it returns for the same blob with any other type byte.
\<close>

theorem Unmarshal_type_byte_unchecked:
  assumes m: "length m = 63" and r: "length (ID r) = AccountIDLen"
  shows "Type (fst (Unmarshal tm r (m[16 := v]))) = v \<and>
         snd (Unmarshal tm r (m[16 := v])) = snd (Unmarshal tm r m) \<and>
         OneTimeBalance = 1 \<and> PeriodicBalance = 2"
proof -
  have len: "length (m[16 := v]) = 63" using m by simp
  have t: "take 16 (m[16 := v]) = take 16 m" by simp
  have d: "\<And>n. 17 \<le> n \<Longrightarrow> drop n (m[16 := v]) = drop n m" by simp
  show ?thesis
    unfolding Unmarshal_63 [OF r len] Unmarshal_63 [OF r m]
    using m by (simp add: Let_def d OneTimeBalance_def PeriodicBalance_def split: sum.splits)
qed

lemma testBlob_update: "(testBlob ty)[16 := v] = testBlob v"
  by (simp add: testBlob_def testID_def)

lemma length_testBlob: "length (testBlob ty) = 63"
  by (simp add: testBlob_def testID_def length_PutUint64)

theorem Unmarshal_type_byte_unchecked_witness:
  "length (testBlob 1) = 63 \<and>
   Type (fst (Unmarshal gotime_lib (emptyAccount gotime_lib) ((testBlob 1)[16 := 200]))) = 200 \<and>
   snd (Unmarshal gotime_lib (emptyAccount gotime_lib) ((testBlob 1)[16 := 200])) = None"
  using Unmarshal_type_byte_unchecked
    [of "testBlob 1" "emptyAccount gotime_lib" gotime_lib 200]
  by (simp add: testBlob_update length_testBlob Unmarshal_testBlob length_ID_emptyAccount)

text \<open>
  Claim C2, as stated, fails in two ways. A stored blob of length 63 whose
  timestamps do not decode (here 63 zero bytes: the version byte of the timestamp is
  wrong) makes \<open>GetAccount\<close> fail with the error of the timestamp decoder, which is
  not \<open>ErrMalformed\<close>; and a stored blob of length 0 makes it fail with
  \<open>ErrAccNotFound\<close>.
\<close>

theorem GetAccount_Malformed_counterexample:
  "UnmarshalBinary gotime_lib (take 15 (drop 33 (replicate 63 0))) = Inl ErrUnsupportedVersion \<and>
   GetAccount gotime_lib [(testID, Some (replicate 63 0))] testID
     = Inl (ErrExt ErrUnsupportedVersion) \<and>
   GetAccount gotime_lib [(testID, Some (replicate 63 0))] testID \<noteq> Inl ErrMalformed \<and>
   GetAccount gotime_lib [(testID, Some [])] testID = Inl ErrAccNotFound \<and>
   GetAccount gotime_lib [(testID, Some [])] testID \<noteq> Inl ErrMalformed"
  by (simp add: GetAccount_def View_def bucket_Get_def Unmarshal_def Let_def emptyAccount_def
      AccountIDLen_def gotime_lib_def gotime_UnmarshalBinary_def timeBinaryVersion_def)

text \<open>
  Claim C2, amended. \<open>GetAccount\<close> on the stored blob \<open>bucket_Get db id\<close>:
  an empty blob (or a missing key) gives \<open>ErrAccNotFound\<close>; a non-empty blob
  whose length is not 63 gives \<open>ErrMalformed\<close>; a 63-byte blob whose
  \<open>LastUpdate\<close> sub-field (bytes 33 to 47) or, after it, whose \<open>ExpirationDate\<close>
  sub-field (bytes 48 to 62) fails to decode gives the error of that decoding,
  unchanged. Only when both decode does the call succeed, with the decoded fields.
\<close>

theorem GetAccount_outcome:
  "GetAccount tm db id' =
     (let blob = bucket_Get db id' in
      if length blob = 0 then Inl ErrAccNotFound
      else if length blob \<noteq> 63 then Inl ErrMalformed
      else case UnmarshalBinary tm (take 15 (drop 33 blob)) of
             Inl err \<Rightarrow> Inl (ErrExt err)
           | Inr lastUpdate \<Rightarrow>
               (case UnmarshalBinary tm (drop 48 blob) of
                  Inl err \<Rightarrow> Inl (ErrExt err)
                | Inr expirationDate \<Rightarrow>
                    Inr \<lparr>ID = take 16 blob, Type = blob ! 16,
                         InitialBalance = Uint64 (take 8 (drop 17 blob)),
                         CurrentBalance = Uint64 (take 8 (drop 25 blob)),
                         LastUpdate = lastUpdate, ExpirationDate = expirationDate\<rparr>))"
proof (cases "length (bucket_Get db id') = 63")
  case True
  then have ne: "bucket_Get db id' \<noteq> []" by auto
  have "GetAccount tm db id' =
      (case Unmarshal tm (emptyAccount tm) (bucket_Get db id') of
         (_, Some err) \<Rightarrow> Inl err
       | (account, None) \<Rightarrow> Inr account)"
    using ne by (simp add: GetAccount_def View_def Let_def)
  also have "\<dots> =
      (case UnmarshalBinary tm (take 15 (drop 33 (bucket_Get db id'))) of
         Inl err \<Rightarrow> Inl (ErrExt err)
       | Inr lastUpdate \<Rightarrow>
           (case UnmarshalBinary tm (drop 48 (bucket_Get db id')) of
              Inl err \<Rightarrow> Inl (ErrExt err)
            | Inr expirationDate \<Rightarrow>
                Inr \<lparr>ID = take 16 (bucket_Get db id'), Type = bucket_Get db id' ! 16,
                     InitialBalance = Uint64 (take 8 (drop 17 (bucket_Get db id'))),
                     CurrentBalance = Uint64 (take 8 (drop 25 (bucket_Get db id'))),
                     LastUpdate = lastUpdate, ExpirationDate = expirationDate\<rparr>))"
    unfolding Unmarshal_63 [OF length_ID_emptyAccount True]
    by (simp add: Let_def emptyAccount_def split: sum.splits)
  finally show ?thesis
    using True ne by (simp add: Let_def)
next
  case False
  then show ?thesis
    by (simp add: GetAccount_def View_def Let_def Unmarshal_def AccountIDLen_def)
qed

section \<open>Enumerating and creating accounts\<close>

text \<open>
  \<open>ForEach\<close> with \<open>readFn\<close>, from any list of accounts read so far: the values
  that are not nil are decoded in order, and the first one that fails to decode ends
  the loop with its error.
\<close>

lemma ForEach_readFn_ok:
  "list_all (\<lambda>b. snd (Unmarshal tm (emptyAccount tm) b) = None) (List.map_filter snd db) \<Longrightarrow>
   ForEach (readFn tm) db accounts =
     (accounts @ map (\<lambda>b. fst (Unmarshal tm (emptyAccount tm) b)) (List.map_filter snd db), None)"
proof (induction db arbitrary: accounts)
  case Nil
  then show ?case by simp
next
  case (Cons kv db)
  obtain k v where kv: "kv = (k, v)" by (cases kv)
  show ?case
  proof (cases v)
    case None
    with Cons kv show ?thesis by (simp add: readFn_def)
  next
    case (Some b)
    with Cons.prems kv have ok: "snd (Unmarshal tm (emptyAccount tm) b) = None"
      and rest: "list_all (\<lambda>b. snd (Unmarshal tm (emptyAccount tm) b) = None) (List.map_filter snd db)"
      by simp_all
    obtain a where a: "Unmarshal tm (emptyAccount tm) b = (a, None)"
      using ok by (cases "Unmarshal tm (emptyAccount tm) b") simp
    show ?thesis
      using Cons.IH [OF rest, of "accounts @ [a]"] kv Some a
      by (simp add: readFn_def)
  qed
qed

lemma ForEach_readFn_error:
  "\<not> list_all (\<lambda>b. snd (Unmarshal tm (emptyAccount tm) b) = None) (List.map_filter snd db) \<Longrightarrow>
   \<exists>accounts' err. ForEach (readFn tm) db accounts = (accounts', Some err)"
proof (induction db arbitrary: accounts)
  case Nil
  then show ?case by simp
next
  case (Cons kv db)
  obtain k v where kv: "kv = (k, v)" by (cases kv)
  show ?case
  proof (cases v)
    case None
    with Cons kv show ?thesis by (simp add: readFn_def)
  next
    case (Some b)
    obtain a e where a: "Unmarshal tm (emptyAccount tm) b = (a, e)"
      by (cases "Unmarshal tm (emptyAccount tm) b")
    show ?thesis
    proof (cases e)
      case None
      with Cons.prems kv Some a
      have "\<not> list_all (\<lambda>b. snd (Unmarshal tm (emptyAccount tm) b) = None) (List.map_filter snd db)"
        by simp
      from Cons.IH [OF this, of "accounts @ [a]"] kv Some a None
      show ?thesis by (simp add: readFn_def)
    next
      case (Some err)
      with kv \<open>v = Some b\<close> a show ?thesis by (simp add: readFn_def)
    qed
  qed
qed

text \<open>
  Claim C7. The records of a stored account set are the non-nil values of the bucket
  (\<open>List.map_filter snd db\<close>). If at least one of them fails to decode,
  \<open>GetAccounts\<close> returns an error, and with it no account; if all of them decode,
  it returns exactly the decoded records, in the order of the bucket.
\<close>

theorem GetAccounts_all_or_nothing:
  "((\<exists>b \<in> set (List.map_filter snd db1). snd (Unmarshal tm (emptyAccount tm) b) \<noteq> None)
      \<longrightarrow> (\<exists>err. GetAccounts tm db1 = Inl err)) \<and>
   ((\<forall>b \<in> set (List.map_filter snd db2). snd (Unmarshal tm (emptyAccount tm) b) = None)
      \<longrightarrow> GetAccounts tm db2
            = Inr (map (\<lambda>b. fst (Unmarshal tm (emptyAccount tm) b)) (List.map_filter snd db2)))"
proof (intro conjI impI)
  assume "\<exists>b \<in> set (List.map_filter snd db1). snd (Unmarshal tm (emptyAccount tm) b) \<noteq> None"
  then have "\<not> list_all (\<lambda>b. snd (Unmarshal tm (emptyAccount tm) b) = None)
                 (List.map_filter snd db1)"
    by (simp add: list_all_iff)
  from ForEach_readFn_error [OF this, of "[]"]
  show "\<exists>err. GetAccounts tm db1 = Inl err"
    by (auto simp: GetAccounts_def View_def)
next
  assume "\<forall>b \<in> set (List.map_filter snd db2). snd (Unmarshal tm (emptyAccount tm) b) = None"
  then have "list_all (\<lambda>b. snd (Unmarshal tm (emptyAccount tm) b) = None)
               (List.map_filter snd db2)"
    by (simp add: list_all_iff)
  from ForEach_readFn_ok [OF this, of "[]"]
  show "GetAccounts tm db2
          = Inr (map (\<lambda>b. fst (Unmarshal tm (emptyAccount tm) b)) (List.map_filter snd db2))"
    by (simp add: GetAccounts_def View_def)
qed

theorem GetAccounts_all_or_nothing_witness:
  "(\<exists>err. GetAccounts gotime_lib [([1], Some (testBlob 1)), ([2], None), ([3], Some [0, 1, 2])]
            = Inl err) \<and>
   GetAccounts gotime_lib [([1], Some (testBlob 1)), ([2], None), ([3], Some (testBlob 2))]
     = Inr [testAccount\<lparr>Type := 1\<rparr>, testAccount\<lparr>Type := 2\<rparr>]"
proof -
  have bad: "Unmarshal gotime_lib (emptyAccount gotime_lib) [0, 1, 2]
               = (emptyAccount gotime_lib, Some ErrMalformed)"
    by (simp add: Unmarshal_def AccountIDLen_def)
  show ?thesis
    using GetAccounts_all_or_nothing
      [of "[([1], Some (testBlob 1)), ([2], None), ([3], Some [0, 1, 2])]" gotime_lib
          "[([1], Some (testBlob 1)), ([2], None), ([3], Some (testBlob 2))]"]
    by (simp add: Unmarshal_testBlob bad)
qed

text \<open>What \<open>Bucket.Put\<close> leaves under the key it wrote.\<close>

lemma map_of_put_sorted: "map_of (put_sorted k v b) k = Some v"
  by (induction b) auto

lemma map_of_put_sorted_other: "k' \<noteq> k \<Longrightarrow> map_of (put_sorted k v b) k' = map_of b k'"
  by (induction b) auto

lemma bucket_Get_Put: "bucket_Put b k v = Inr b' \<Longrightarrow> bucket_Get b' k = v"
  by (auto simp: bucket_Put_def bucket_Get_def map_of_put_sorted split: if_splits)

lemma bucket_Get_Put_other:
  "bucket_Put b k v = Inr b' \<Longrightarrow> k' \<noteq> k \<Longrightarrow> bucket_Get b' k' = bucket_Get b k'"
  by (auto simp: bucket_Put_def bucket_Get_def map_of_put_sorted_other split: if_splits)

text \<open>What a successful \<open>NewAccount\<close> has done.\<close>

lemma NewAccount_success:
  assumes "NewAccount tm env now rnd db balance expirationDate = (db', Inr account)"
  shows "\<exists>r m. rnd = Inr r \<and>
           account = \<lparr>ID = copy (replicate AccountIDLen 0) r, Type = OneTimeBalance,
                      InitialBalance = balance, CurrentBalance = balance,
                      LastUpdate = now, ExpirationDate = expirationDate\<rparr> \<and>
           Marshal tm account = Inr m \<and> bucket_Put db (ID account) m = Inr db'"
  using assms
  by (auto simp: NewAccount_def Update_def Let_def emptyAccount_def
      split: sum.splits option.splits prod.splits)

text \<open>
  Claim C8, as stated, fails for an expiration date that the encoding does not
  carry whole. With a date computed from the clock (\<open>time.Now().Add(d)\<close>, which
  has a monotonic reading) \<open>NewAccount\<close> succeeds and returns the account with
  that date, and \<open>GetAccount\<close> on its ID returns the test account, whose
  \<open>ExpirationDate\<close> is the same instant without the monotonic reading, not the
  value that was given.
\<close>

theorem NewAccount_GetAccount_counterexample:
  "NewAccount gotime_lib tx_ok testClock (Inr testID) [] 9735 testExpClock
     = ([(testID, Some (testBlob 1))],
        Inr (testAccount\<lparr>LastUpdate := testClock, ExpirationDate := testExpClock\<rparr>)) \<and>
   GetAccount gotime_lib [(testID, Some (testBlob 1))] testID = Inr testAccount \<and>
   ExpirationDate testAccount \<noteq> testExpClock"
proof -
  let ?a = "testAccount\<lparr>LastUpdate := testClock, ExpirationDate := testExpClock\<rparr>"
  have m: "Marshal gotime_lib ?a = Inr (testBlob 1)"
    using Marshal_eq [of ?a gotime_lib
        "[1, 0, 0, 0, 14, 210, 163, 44, 64, 0, 0, 0, 0, 255, 255]"
        "[1, 0, 0, 0, 14, 210, 204, 63, 64, 0, 0, 0, 0, 255, 255]"]
    by (simp add: testAccount_def testID_def testNow_def testClock_def testExpDate_def
        testExpClock_def testBlob_def AccountIDLen_def gotime_lib_def gotime_MarshalBinary_def
        timeBinaryVersion_def ucast_minus_1_byte ucast_mask_8_byte OneTimeBalance_def copy_def)
  have a: "(emptyAccount gotime_lib)
              \<lparr>Type := OneTimeBalance, InitialBalance := 9735, CurrentBalance := 9735,
               LastUpdate := testClock, ExpirationDate := testExpClock,
               ID := copy (replicate AccountIDLen 0) testID\<rparr> = ?a"
    by (simp add: emptyAccount_def testAccount_def testID_def AccountIDLen_def copy_def)
  have new: "NewAccount gotime_lib tx_ok testClock (Inr testID) [] 9735 testExpClock
               = ([(testID, Some (testBlob 1))], Inr ?a)"
    by (simp add: NewAccount_def Let_def a [simplified emptyAccount_def, simplified]
        emptyAccount_def m Update_def tx_ok_def bucket_Put_def length_testBlob
        MaxKeySize_def MaxValueSize_def)
      (simp add: testAccount_def testID_def)
  have get: "GetAccount gotime_lib [(testID, Some (testBlob 1))] testID = Inr testAccount"
    using Unmarshal_testBlob [of 1] length_testBlob [of 1]
    by (auto simp: GetAccount_def View_def Let_def bucket_Get_def testAccount_def
        OneTimeBalance_def)
  have "ExpirationDate testAccount \<noteq> testExpClock"
    by (simp add: testAccount_def testExpClock_def testExpDate_def)
  with new get show ?thesis by simp
qed

text \<open>
  Claim C8, amended. When \<open>NewAccount\<close> succeeds, the account it returns has the
  type \<open>OneTimeBalance\<close>, both balances equal to the given balance, the given
  expiration date, the clock reading as \<open>LastUpdate\<close>, and as ID the 16-byte array
  that \<open>rand.Read\<close> filled. \<open>GetAccount\<close> on that ID, in the database the call
  leaves, returns a record with the same ID, type and balances, whose
  \<open>LastUpdate\<close> and \<open>ExpirationDate\<close> are what \<open>UnmarshalBinary\<close> reads back
  from the 15-byte fields that hold the encodings of the clock reading and of the
  given date; it fails only if \<open>UnmarshalBinary\<close> does, with that error. So the
  expiration date comes back as far as the time library reads it back: in the
  instance, without its monotonic reading.
\<close>

theorem NewAccount_then_GetAccount:
  assumes new: "NewAccount tm env now rnd db balance expirationDate = (db', Inr account)"
  shows "Type account = OneTimeBalance \<and> InitialBalance account = balance \<and>
         CurrentBalance account = balance \<and> ExpirationDate account = expirationDate \<and>
         LastUpdate account = now \<and> length (ID account) = 16 \<and>
         (\<exists>r. rnd = Inr r \<and> ID account = copy (replicate 16 0) r) \<and>
         (\<exists>lu ex. MarshalBinary tm now = Inr lu \<and> MarshalBinary tm expirationDate = Inr ex \<and>
            GetAccount tm db' (ID account) =
              (case UnmarshalBinary tm (copy (replicate 15 0) lu) of
                 Inl err \<Rightarrow> Inl (ErrExt err)
               | Inr lu' \<Rightarrow>
                   (case UnmarshalBinary tm (copy (replicate 15 0) ex) of
                      Inl err \<Rightarrow> Inl (ErrExt err)
                    | Inr ex' \<Rightarrow> Inr (account\<lparr>LastUpdate := lu', ExpirationDate := ex'\<rparr>))))"
proof -
  from NewAccount_success [OF new] obtain r m where r: "rnd = Inr r"
    and acc: "account = \<lparr>ID = copy (replicate AccountIDLen 0) r, Type = OneTimeBalance,
                      InitialBalance = balance, CurrentBalance = balance,
                      LastUpdate = now, ExpirationDate = expirationDate\<rparr>"
    and m: "Marshal tm account = Inr m" and put: "bucket_Put db (ID account) m = Inr db'"
    by blast
  have len: "length (ID account) = AccountIDLen"
    by (simp add: acc length_copy)
  from Marshal_success [OF m] obtain lu ex
    where lu: "MarshalBinary tm (LastUpdate account) = Inr lu"
      and ex: "MarshalBinary tm (ExpirationDate account) = Inr ex"
    by blast
  from Unmarshal_Marshal [OF len length_ID_emptyAccount lu ex] m
  have m63: "length m = 63"
    and un: "Unmarshal tm (emptyAccount tm) m =
      (case UnmarshalBinary tm (copy (replicate 15 0) lu) of
         Inl err \<Rightarrow>
           (account\<lparr>LastUpdate := zeroTime tm,
                    ExpirationDate := ExpirationDate (emptyAccount tm)\<rparr>, Some (ErrExt err))
       | Inr lu' \<Rightarrow>
           (case UnmarshalBinary tm (copy (replicate 15 0) ex) of
              Inl err \<Rightarrow>
                (account\<lparr>LastUpdate := lu', ExpirationDate := zeroTime tm\<rparr>, Some (ErrExt err))
            | Inr ex' \<Rightarrow> (account\<lparr>LastUpdate := lu', ExpirationDate := ex'\<rparr>, None)))"
    by auto
  have "bucket_Get db' (ID account) = m"
    using put by (rule bucket_Get_Put)
  moreover from m63 have "m \<noteq> []" by auto
  ultimately have "GetAccount tm db' (ID account) =
      (case UnmarshalBinary tm (copy (replicate 15 0) lu) of
         Inl err \<Rightarrow> Inl (ErrExt err)
       | Inr lu' \<Rightarrow>
           (case UnmarshalBinary tm (copy (replicate 15 0) ex) of
              Inl err \<Rightarrow> Inl (ErrExt err)
            | Inr ex' \<Rightarrow> Inr (account\<lparr>LastUpdate := lu', ExpirationDate := ex'\<rparr>)))"
    by (simp add: GetAccount_def View_def Let_def un split: sum.splits)
  with lu ex have "\<exists>lu ex. MarshalBinary tm now = Inr lu \<and>
      MarshalBinary tm expirationDate = Inr ex \<and>
      GetAccount tm db' (ID account) =
        (case UnmarshalBinary tm (copy (replicate 15 0) lu) of
           Inl err \<Rightarrow> Inl (ErrExt err)
         | Inr lu' \<Rightarrow>
             (case UnmarshalBinary tm (copy (replicate 15 0) ex) of
                Inl err \<Rightarrow> Inl (ErrExt err)
              | Inr ex' \<Rightarrow> Inr (account\<lparr>LastUpdate := lu', ExpirationDate := ex'\<rparr>)))"
    by (auto simp: acc)
  then show ?thesis
    using r len by (simp add: acc AccountIDLen_def)
qed

theorem NewAccount_then_GetAccount_witness:
  "NewAccount gotime_lib tx_ok testNow (Inr testID) [] 9735 testExpDate
     = ([(testID, Some (testBlob 1))], Inr testAccount) \<and>
   CurrentBalance testAccount = 9735 \<and> Type testAccount = OneTimeBalance \<and>
   ExpirationDate testAccount = testExpDate \<and>
   GetAccount gotime_lib [(testID, Some (testBlob 1))] (ID testAccount) = Inr testAccount"
proof -
  have m: "Marshal gotime_lib testAccount = Inr (testBlob 1)"
    using Marshal_eq [of testAccount gotime_lib
        "[1, 0, 0, 0, 14, 210, 163, 44, 64, 0, 0, 0, 0, 255, 255]"
        "[1, 0, 0, 0, 14, 210, 204, 63, 64, 0, 0, 0, 0, 255, 255]"]
    by (simp add: testAccount_def testID_def testNow_def testExpDate_def testBlob_def
        AccountIDLen_def gotime_lib_def gotime_MarshalBinary_def timeBinaryVersion_def
        ucast_minus_1_byte ucast_mask_8_byte OneTimeBalance_def copy_def)
  have new: "NewAccount gotime_lib tx_ok testNow (Inr testID) [] 9735 testExpDate
               = ([(testID, Some (testBlob 1))], Inr testAccount)"
  proof -
    have a: "(emptyAccount gotime_lib)
                \<lparr>Type := OneTimeBalance, InitialBalance := 9735, CurrentBalance := 9735,
                 LastUpdate := testNow, ExpirationDate := testExpDate,
                 ID := copy (replicate AccountIDLen 0) testID\<rparr> = testAccount"
      by (simp add: emptyAccount_def testAccount_def testID_def AccountIDLen_def copy_def)
    show ?thesis
      by (simp add: NewAccount_def Let_def a [simplified emptyAccount_def, simplified]
          emptyAccount_def m Update_def tx_ok_def bucket_Put_def length_testBlob
          MaxKeySize_def MaxValueSize_def)
        (simp add: testAccount_def testID_def)
  qed
  have lu: "MarshalBinary gotime_lib testNow
              = Inr [1, 0, 0, 0, 14, 210, 163, 44, 64, 0, 0, 0, 0, 255, 255]"
    by (simp add: gotime_lib_def gotime_MarshalBinary_def timeBinaryVersion_def testNow_def
        ucast_minus_1_byte ucast_mask_8_byte)
  have ex: "MarshalBinary gotime_lib testExpDate
              = Inr [1, 0, 0, 0, 14, 210, 204, 63, 64, 0, 0, 0, 0, 255, 255]"
    by (simp add: gotime_lib_def gotime_MarshalBinary_def timeBinaryVersion_def testExpDate_def
        ucast_minus_1_byte ucast_mask_8_byte)
  have rd: "UnmarshalBinary gotime_lib
                (copy (replicate 15 0) [1, 0, 0, 0, 14, 210, 163, 44, 64, 0, 0, 0, 0, 255, 255])
                = Inr testNow"
    "UnmarshalBinary gotime_lib
       (copy (replicate 15 0) [1, 0, 0, 0, 14, 210, 204, 63, 64, 0, 0, 0, 0, 255, 255])
       = Inr testExpDate"
    by (simp_all add: gotime_lib_def gotime_UnmarshalBinary_def timeBinaryVersion_def
        testNow_def testExpDate_def copy_def)
  from NewAccount_then_GetAccount [OF new]
  have "GetAccount gotime_lib [(testID, Some (testBlob 1))] (ID testAccount) = Inr testAccount"
    by (auto simp: lu ex rd)
  with new show ?thesis
    by (simp add: testAccount_def)
qed

section \<open>The root key store: lock state and passwords\<close>

text \<open>
  Claim C3. In the Locked state (\<open>encKey\<close> is nil), \<open>Get\<close>, \<open>RootKey\<close>,
  \<open>ChangePassword\<close> and \<open>GenerateNewRootKey\<close> return \<open>ErrStoreLocked\<close>. The
  store they leave is the store they were given, and the outcome is the same
  whatever the bucket holds: no transaction is run.
\<close>

theorem locked_store_refuses:
  assumes "encKey r = None"
  shows "Get c r id' = Inl ErrStoreLocked \<and>
         RootKey c env r = (r, Inl ErrStoreLocked) \<and>
         ChangePassword c env r oldPassword newPassword = (r, Some ErrStoreLocked) \<and>
         GenerateNewRootKey c env r = (r, Some ErrStoreLocked)"
  using assms
  by (simp add: Get_def RootKey_def ChangePassword_def GenerateNewRootKey_def)

theorem locked_store_refuses_witness:
  "encKey lockedStore = None \<and>
   Get box_snacl lockedStore defaultRootKeyID = Inl ErrStoreLocked \<and>
   RootKey box_snacl (box_env tx_ok []) lockedStore = (lockedStore, Inl ErrStoreLocked) \<and>
   ChangePassword box_snacl (box_env tx_ok []) lockedStore (Some [5]) (Some [6])
     = (lockedStore, Some ErrStoreLocked) \<and>
   GenerateNewRootKey box_snacl (box_env tx_ok []) lockedStore
     = (lockedStore, Some ErrStoreLocked)"
  using locked_store_refuses
    [of lockedStore box_snacl defaultRootKeyID "box_env tx_ok []" "Some [5]" "Some [6]"]
  by (simp add: lockedStore_def)

text \<open>
  Claim C4, as stated, fails in three ways. The check is for a nil password only:
  \<open>CreateUnlock\<close> with an empty password on a fresh store creates the encryption
  key and unlocks, and \<open>ChangePassword\<close> with an empty new password goes through.
  And the lock state is checked first: a nil password gives \<open>ErrAlreadyUnlocked\<close>
  on an unlocked store in \<open>CreateUnlock\<close>, and \<open>ErrStoreLocked\<close> on a locked store
  in \<open>ChangePassword\<close>.
\<close>

theorem PasswordRequired_counterexample:
  "CreateUnlock box_snacl (box_env tx_ok []) lockedStore (Some [])
     = (\<lparr>DB = [(encryptionKeyID, Some [1])], encKey = Some (box_key [])\<rparr>, None) \<and>
   ChangePassword box_snacl (box_env tx_ok []) testStore (Some [5]) (Some [])
     = (\<lparr>DB = [(defaultRootKeyID, Some [0, 9, 9]), (encryptionKeyID, Some [1])],
         encKey = Some (box_key [])\<rparr>, None) \<and>
   CreateUnlock box_snacl (box_env tx_ok []) testStore None
     = (testStore, Some ErrAlreadyUnlocked) \<and>
   ChangePassword box_snacl (box_env tx_ok []) lockedStore None None
     = (lockedStore, Some ErrStoreLocked)"
  by (simp add: CreateUnlock_def ChangePassword_def Update_def Let_def lockedStore_def
      testStore_def box_key_def box_snacl_def box_env_def tx_ok_def bucket_Get_def
      bucket_Put_def encryptionKeyID_def defaultRootKeyID_def MaxKeySize_def MaxValueSize_def
      box_NewSecretKey_def box_Unmarshal_def box_DeriveKey_def box_Encrypt_def
      box_Decrypt_def copy_def)

text \<open>
  Claim C4, amended. \<open>CreateUnlock\<close> on a locked store with a nil password, and
  \<open>ChangePassword\<close> on an unlocked store with a nil old or new password, return
  \<open>ErrPasswordRequired\<close> and leave the store as it was.
\<close>

theorem nil_password_required:
  "(encKey r1 = None \<longrightarrow> CreateUnlock c env r1 None = (r1, Some ErrPasswordRequired)) \<and>
   (encKey r2 \<noteq> None \<and> (oldPassword = None \<or> newPassword = None) \<longrightarrow>
      ChangePassword c env r2 oldPassword newPassword = (r2, Some ErrPasswordRequired))"
  by (auto simp: CreateUnlock_def ChangePassword_def split: option.splits)

theorem nil_password_required_witness:
  "encKey lockedStore = None \<and>
   CreateUnlock box_snacl (box_env tx_ok []) lockedStore None
     = (lockedStore, Some ErrPasswordRequired) \<and>
   encKey testStore \<noteq> None \<and>
   ChangePassword box_snacl (box_env tx_ok []) testStore (Some [5]) None
     = (testStore, Some ErrPasswordRequired)"
  using nil_password_required
    [of lockedStore box_snacl "box_env tx_ok []" testStore "Some [5]" None]
  by (simp add: lockedStore_def testStore_def)

text \<open>
  Claim C10 at a commit that fails. \<open>CreateUnlock\<close> and \<open>ChangePassword\<close> assign
  \<open>r.encKey\<close> inside the closure they pass to \<open>Update\<close>; when the closure has
  returned nil and the commit then fails, the call returns the error of the commit,
  the bucket is rolled back, and the new key stays in memory: the locked store is
  left unlocked, and the store whose password was to change holds the key of the new
  password over the ciphertext of the old one.
\<close>

theorem failed_commit_keeps_new_encKey:
  "CreateUnlock box_snacl (box_env tx_commit_fails []) lockedStore (Some [5])
     = (lockedStore\<lparr>encKey := Some (box_key [5])\<rparr>, Some (ErrBolt ErrCommit)) \<and>
   ChangePassword box_snacl (box_env tx_commit_fails []) testStore (Some [5]) (Some [6])
     = (testStore\<lparr>encKey := Some (box_key [6])\<rparr>, Some (ErrBolt ErrCommit)) \<and>
   RootKey box_snacl (box_env tx_ok []) (testStore\<lparr>encKey := Some (box_key [6])\<rparr>)
     = (testStore\<lparr>encKey := Some (box_key [6])\<rparr>, Inl (ErrExt ErrDecryptFailed))"
  by (simp add: CreateUnlock_def ChangePassword_def RootKey_def Update_def Let_def
      lockedStore_def testStore_def box_key_def box_snacl_def box_env_def tx_ok_def
      tx_commit_fails_def bucket_Get_def bucket_Put_def encryptionKeyID_def
      defaultRootKeyID_def MaxKeySize_def MaxValueSize_def box_NewSecretKey_def
      box_Unmarshal_def box_DeriveKey_def box_Encrypt_def box_Decrypt_def copy_def)

text \<open>
  Every other failure of the two calls comes before the assignment: when the commit
  does not fail, a call that returns an error leaves the store, and with it the key
  in memory, as it was.
\<close>

lemma CreateUnlock_error_keeps_store:
  assumes "CreateUnlock c env r password = (r', Some err)" and "commitErr (tx env) = None"
  shows "r' = r"
  using assms
  by (auto simp: CreateUnlock_def Update_def Let_def
      split: if_splits option.splits sum.splits prod.splits)

lemma ChangePassword_error_keeps_store:
  assumes "ChangePassword c env r oldPassword newPassword = (r', Some err)"
    and "commitErr (tx env) = None"
  shows "r' = r"
  using assms
  by (auto simp: ChangePassword_def Update_def Let_def
      split: if_splits option.splits sum.splits prod.splits)

section \<open>The root key store: the root key\<close>

text \<open>The two paths of \<open>RootKey\<close> on an unlocked store.\<close>

lemma RootKey_read:
  assumes "encKey r = Some k" and "bucket_Get (DB r) defaultRootKeyID \<noteq> []"
  shows "RootKey c env r =
    (r, case sk_Decrypt c k (bucket_Get (DB r) defaultRootKeyID) of
          Inl err \<Rightarrow> Inl (ErrExt err)
        | Inr p \<Rightarrow>
            (case commitErr (tx env) of
               None \<Rightarrow> Inr (p, defaultRootKeyID)
             | Some e \<Rightarrow> Inl (ErrBolt e)))"
  using assms
  by (simp add: RootKey_def Update_def Let_def copy_replicate split: sum.splits option.splits)

lemma RootKey_create:
  assumes "encKey r = Some k" and "bucket_Get (DB r) defaultRootKeyID = []"
    and "RootKey c env r = (r1, Inr (k1, id1))"
  shows "\<exists>rnd ct db1. randRead env = Inr rnd \<and> k1 = copy (replicate RootKeyLen 0) rnd \<and>
           id1 = defaultRootKeyID \<and> sk_Encrypt env k k1 = Inr ct \<and>
           bucket_Put (DB r) defaultRootKeyID ct = Inr db1 \<and> r1 = r\<lparr>DB := db1\<rparr>"
  using assms
  by (auto simp: RootKey_def Update_def Let_def split: sum.splits option.splits)

text \<open>
  Claim C6. When two calls of \<open>RootKey\<close> in a row succeed, the second returns the
  bytes and the id of the first and leaves the bucket as the first left it; and the
  first leaves the bucket as it found it when a root key was already stored. So
  the ciphertext is written at most once, by the first call, when there was none.
  The encryption library is taken to decrypt what it encrypted under the same key,
  and to reject an empty ciphertext.
\<close>

theorem RootKey_twice:
  assumes first: "RootKey c env1 r = (r1, Inr (k1, id1))"
    and second: "RootKey c env2 r1 = (r2, Inr (k2, id2))"
    and enc: "\<forall>k p ct. sk_Encrypt env1 k p = Inr ct \<longrightarrow> sk_Decrypt c k ct = Inr p"
    and empty: "\<forall>k p. sk_Decrypt c k [] \<noteq> Inr p"
  shows "k2 = k1 \<and> id2 = id1 \<and> DB r2 = DB r1 \<and>
         (bucket_Get (DB r) defaultRootKeyID \<noteq> [] \<longrightarrow> DB r1 = DB r)"
proof -
  obtain k where k: "encKey r = Some k"
    using first by (cases "encKey r") (auto simp: RootKey_def)
  show ?thesis
  proof (cases "bucket_Get (DB r) defaultRootKeyID = []")
    case False
    from first have r1: "r1 = r"
      and d1: "sk_Decrypt c k (bucket_Get (DB r) defaultRootKeyID) = Inr k1"
      and i1: "id1 = defaultRootKeyID"
      unfolding RootKey_read [OF k False]
      by (auto split: sum.splits option.splits)
    from second show ?thesis
      unfolding r1 RootKey_read [OF k False]
      by (auto simp: d1 i1 split: option.splits)
  next
    case True
    from RootKey_create [OF k True first] obtain rnd ct db1
      where k1: "k1 = copy (replicate RootKeyLen 0) rnd" and i1: "id1 = defaultRootKeyID"
        and ct: "sk_Encrypt env1 k k1 = Inr ct"
        and put: "bucket_Put (DB r) defaultRootKeyID ct = Inr db1" and r1: "r1 = r\<lparr>DB := db1\<rparr>"
      by blast
    have dec: "sk_Decrypt c k ct = Inr k1"
      using enc ct by blast
    with empty have ne: "ct \<noteq> []" by auto
    have get: "bucket_Get (DB r1) defaultRootKeyID = ct"
      using put by (simp add: r1 bucket_Get_Put)
    have k': "encKey r1 = Some k" by (simp add: r1 k)
    from ne get have ne': "bucket_Get (DB r1) defaultRootKeyID \<noteq> []" by simp
    from second show ?thesis
      unfolding RootKey_read [OF k' ne'] get
      by (auto simp: dec i1 True split: option.splits)
  qed
qed

text \<open>The contract of claim C6 holds of the instance.\<close>

lemma box_Encrypt_Decrypt: "box_Encrypt k p = Inr ct \<Longrightarrow> box_Decrypt k ct = Inr p"
  by (auto simp: box_Encrypt_def box_Decrypt_def split: if_splits)

lemma box_Decrypt_empty: "box_Decrypt k [] \<noteq> Inr p"
  by (simp add: box_Decrypt_def)

theorem RootKey_twice_witness:
  "RootKey box_snacl (box_env tx_ok (replicate 32 7)) unlockedStore
     = (unlockedStore\<lparr>DB := [(defaultRootKeyID, Some (1 # 5 # replicate 32 7)),
                              (encryptionKeyID, Some [1, 5])]\<rparr>,
        Inr (replicate 32 7, defaultRootKeyID)) \<and>
   RootKey box_snacl (box_env tx_ok (replicate 32 8))
       (unlockedStore\<lparr>DB := [(defaultRootKeyID, Some (1 # 5 # replicate 32 7)),
                              (encryptionKeyID, Some [1, 5])]\<rparr>)
     = (unlockedStore\<lparr>DB := [(defaultRootKeyID, Some (1 # 5 # replicate 32 7)),
                              (encryptionKeyID, Some [1, 5])]\<rparr>,
        Inr (replicate 32 7, defaultRootKeyID))"
proof -
  let ?r1 = "unlockedStore\<lparr>DB := [(defaultRootKeyID, Some (1 # 5 # replicate 32 7)),
                                   (encryptionKeyID, Some [1, 5])]\<rparr>"
  have first: "RootKey box_snacl (box_env tx_ok (replicate 32 7)) unlockedStore
                 = (?r1, Inr (replicate 32 7, defaultRootKeyID))"
    by (simp add: RootKey_def Update_def Let_def unlockedStore_def box_key_def box_snacl_def
        box_env_def tx_ok_def bucket_Get_def bucket_Put_def encryptionKeyID_def
        defaultRootKeyID_def MaxKeySize_def MaxValueSize_def RootKeyLen_def box_Encrypt_def
        copy_def)
  obtain r2 k2 id2 where second:
    "RootKey box_snacl (box_env tx_ok (replicate 32 8)) ?r1 = (r2, Inr (k2, id2))"
    by (simp add: RootKey_def Update_def Let_def unlockedStore_def box_key_def box_snacl_def
        box_env_def tx_ok_def bucket_Get_def defaultRootKeyID_def encryptionKeyID_def
        box_Decrypt_def copy_def)
  have enc: "\<forall>k p ct. sk_Encrypt (box_env tx_ok (replicate 32 7)) k p = Inr ct
               \<longrightarrow> sk_Decrypt box_snacl k ct = Inr p"
    by (simp add: box_env_def box_snacl_def box_Encrypt_Decrypt)
  have empty: "\<forall>k p. sk_Decrypt box_snacl k [] \<noteq> Inr p"
    by (simp add: box_snacl_def box_Decrypt_empty)
  from RootKey_twice [OF first second enc empty]
  have "k2 = replicate 32 7" and "id2 = defaultRootKeyID" and "DB r2 = DB ?r1"
    by simp_all
  moreover from second have "encKey r2 = encKey ?r1"
    by (auto simp: RootKey_def Update_def Let_def unlockedStore_def
        split: sum.splits option.splits if_splits prod.splits)
  ultimately have "r2 = ?r1" by simp
  with second first \<open>k2 = replicate 32 7\<close> \<open>id2 = defaultRootKeyID\<close>
  show ?thesis by simp
qed

text \<open>\<open>CreateUnlock\<close> on a locked store whose bucket holds encryption key parameters.\<close>

lemma CreateUnlock_existing:
  assumes "encKey r = None" and "bucket_Get (DB r) encryptionKeyID \<noteq> []"
  shows "CreateUnlock c env r (Some pw) =
    (case sk_Unmarshal c (bucket_Get (DB r) encryptionKeyID) of
       Inl err \<Rightarrow> (r, Some (ErrExt err))
     | Inr k0 \<Rightarrow>
         (case sk_DeriveKey c k0 pw of
            Inl err \<Rightarrow> (r, Some (ErrExt err))
          | Inr k \<Rightarrow>
              (r\<lparr>encKey := Some k\<rparr>,
               case commitErr (tx env) of None \<Rightarrow> None | Some e \<Rightarrow> Some (ErrBolt e))))"
  using assms
  by (simp add: CreateUnlock_def Update_def Let_def split: sum.splits option.splits)

text \<open>What a successful \<open>ChangePassword\<close> has done.\<close>

lemma ChangePassword_success:
  assumes "ChangePassword c env r (Some old) (Some new) = (r', None)"
  shows "\<exists>k0 kOld kNew dk ct b1 b2.
           sk_Unmarshal c (bucket_Get (DB r) encryptionKeyID) = Inr k0 \<and>
           sk_DeriveKey c k0 old = Inr kOld \<and>
           NewSecretKey env new = Inr kNew \<and>
           sk_Decrypt c kOld (bucket_Get (DB r) defaultRootKeyID) = Inr dk \<and>
           sk_Encrypt env kNew dk = Inr ct \<and>
           bucket_Put (DB r) defaultRootKeyID ct = Inr b1 \<and>
           bucket_Put b1 encryptionKeyID (sk_Marshal c kNew) = Inr b2 \<and>
           r' = \<lparr>DB = b2, encKey = Some kNew\<rparr>"
  using assms
  by (auto simp: ChangePassword_def Update_def Let_def copy_replicate
      split: if_splits sum.splits option.splits prod.splits)

lemma defaultRootKeyID_neq_encryptionKeyID: "defaultRootKeyID \<noteq> encryptionKeyID"
  by (simp add: defaultRootKeyID_def encryptionKeyID_def)

text \<open>
  Claim C5, as stated, fails when the key derived from \<open>old\<close> still opens the
  store, as it does for \<open>old = new\<close>: the password change succeeds, a fresh
  instance unlocks with \<open>old\<close>, and its \<open>RootKey\<close> decrypts and returns the root
  key, where the claim has the unlocking or the decryption fail.
\<close>

theorem unlock_with_old_counterexample:
  "ChangePassword box_snacl (box_env tx_ok []) testStore (Some [5]) (Some [5])
     = (testStore, None) \<and>
   CreateUnlock box_snacl (box_env tx_ok []) \<lparr>DB = DB testStore, encKey = None\<rparr> (Some [5])
     = (testStore, None) \<and>
   RootKey box_snacl (box_env tx_ok []) testStore
     = (testStore, Inr ([9, 9], defaultRootKeyID))"
  by (simp add: CreateUnlock_def ChangePassword_def RootKey_def Update_def Let_def
      testStore_def box_key_def box_snacl_def box_env_def tx_ok_def bucket_Get_def
      bucket_Put_def encryptionKeyID_def defaultRootKeyID_def MaxKeySize_def MaxValueSize_def
      box_NewSecretKey_def box_Unmarshal_def box_DeriveKey_def box_Encrypt_def
      box_Decrypt_def copy_def)

text \<open>
  Claim C5, amended. Let an unlocked store hold the root key \<open>K\<close> under the
  default id (its key in memory decrypts the stored ciphertext to \<open>K\<close>), and let
  \<open>ChangePassword\<close> from \<open>old\<close> to \<open>new\<close> succeed, leaving the store \<open>r'\<close>.
  Then, in calls whose transactions commit, \<open>RootKey\<close> on \<open>r'\<close> returns \<open>K\<close>; a
  fresh, locked instance over the bucket of \<open>r'\<close> unlocks with \<open>new\<close> and its
  \<open>RootKey\<close> returns \<open>K\<close>; and when \<open>old\<close> differs from \<open>new\<close>,
  \<open>CreateUnlock\<close> with \<open>old\<close> on such an instance either fails with the
  library's error and leaves it locked, or yields a key under which \<open>RootKey\<close>
  fails to decrypt: the parameters and the ciphertext in the bucket are those of
  \<open>new\<close>. The library is taken to decrypt what it encrypted under the same key,
  to reject an empty ciphertext, to decrypt a ciphertext to one plaintext at most
  whatever the key, to derive the key of \<open>NewSecretKey\<close> again from its
  marshalled, non-empty parameters and the same password, and, for any other
  password, to refuse it or to derive a key that does not decrypt what the key of
  \<open>NewSecretKey\<close> encrypted.
\<close>

theorem ChangePassword_preserves_root_key:
  assumes unlocked: "encKey r = Some ek"
    and holds: "sk_Decrypt c ek (bucket_Get (DB r) defaultRootKeyID) = Inr K"
    and change: "ChangePassword c env r (Some old) (Some new) = (r', None)"
    and enc: "\<forall>k p ct. sk_Encrypt env k p = Inr ct \<longrightarrow> sk_Decrypt c k ct = Inr p"
    and empty: "\<forall>k p. sk_Decrypt c k [] \<noteq> Inr p"
    and auth: "\<forall>k k' ct p p'. sk_Decrypt c k ct = Inr p \<longrightarrow> sk_Decrypt c k' ct = Inr p'
                 \<longrightarrow> p' = p"
    and params: "\<forall>pw k. NewSecretKey env pw = Inr k \<longrightarrow>
                   sk_Marshal c k \<noteq> [] \<and>
                   (\<exists>k0. sk_Unmarshal c (sk_Marshal c k) = Inr k0 \<and>
                         sk_DeriveKey c k0 pw = Inr k)"
    and wrong: "\<forall>pw k k0 pw' k' p ct.
                  NewSecretKey env pw = Inr k \<longrightarrow> sk_Unmarshal c (sk_Marshal c k) = Inr k0 \<longrightarrow>
                  pw' \<noteq> pw \<longrightarrow> sk_DeriveKey c k0 pw' = Inr k' \<longrightarrow>
                  sk_Encrypt env k p = Inr ct \<longrightarrow> (\<exists>err. sk_Decrypt c k' ct = Inl err)"
    and commits: "commitErr (tx env1) = None" "commitErr (tx env2) = None"
                 "commitErr (tx env3) = None"
  shows "RootKey c env1 r' = (r', Inr (K, defaultRootKeyID)) \<and>
         (\<exists>f. CreateUnlock c env2 \<lparr>DB = DB r', encKey = None\<rparr> (Some new) = (f, None) \<and>
              RootKey c env3 f = (f, Inr (K, defaultRootKeyID))) \<and>
         (old \<noteq> new \<longrightarrow>
            (\<exists>err. CreateUnlock c env4 \<lparr>DB = DB r', encKey = None\<rparr> (Some old)
                     = (\<lparr>DB = DB r', encKey = None\<rparr>, Some (ErrExt err))) \<or>
            (\<exists>k' err.
                fst (CreateUnlock c env4 \<lparr>DB = DB r', encKey = None\<rparr> (Some old))
                  = \<lparr>DB = DB r', encKey = Some k'\<rparr> \<and>
                RootKey c env5 \<lparr>DB = DB r', encKey = Some k'\<rparr>
                  = (\<lparr>DB = DB r', encKey = Some k'\<rparr>, Inl (ErrExt err))))"
proof -
  from ChangePassword_success [OF change] obtain k0 kOld kNew dk ct b1 b2
    where kOld: "sk_DeriveKey c k0 old = Inr kOld"
      and kNew: "NewSecretKey env new = Inr kNew"
      and dk: "sk_Decrypt c kOld (bucket_Get (DB r) defaultRootKeyID) = Inr dk"
      and ct: "sk_Encrypt env kNew dk = Inr ct"
      and b1: "bucket_Put (DB r) defaultRootKeyID ct = Inr b1"
      and b2: "bucket_Put b1 encryptionKeyID (sk_Marshal c kNew) = Inr b2"
      and r': "r' = \<lparr>DB = b2, encKey = Some kNew\<rparr>"
    by blast
  have K: "dk = K"
    using auth holds dk by blast
  have dec: "sk_Decrypt c kNew ct = Inr K"
    using enc ct K by blast
  with empty have ne: "ct \<noteq> []" by auto
  have root: "bucket_Get b2 defaultRootKeyID = ct"
    using bucket_Get_Put_other [OF b2 defaultRootKeyID_neq_encryptionKeyID]
      bucket_Get_Put [OF b1] by simp
  have par: "bucket_Get b2 encryptionKeyID = sk_Marshal c kNew"
    using b2 by (rule bucket_Get_Put)
  from params kNew obtain k0' where m: "sk_Marshal c kNew \<noteq> []"
    and un: "sk_Unmarshal c (sk_Marshal c kNew) = Inr k0'"
    and der: "sk_DeriveKey c k0' new = Inr kNew"
    by blast

  have one: "RootKey c env1 r' = (r', Inr (K, defaultRootKeyID))"
    using RootKey_read [of r' kNew c env1] ne
    by (simp add: r' root dec commits)

  let ?f0 = "\<lparr>DB = DB r', encKey = None\<rparr>"
  have f0: "encKey ?f0 = None" "bucket_Get (DB ?f0) encryptionKeyID \<noteq> []"
           "bucket_Get (DB ?f0) defaultRootKeyID \<noteq> []"
    using m ne by (simp_all add: r' par root)
  have "CreateUnlock c env2 ?f0 (Some new) = (?f0\<lparr>encKey := Some kNew\<rparr>, None)"
    unfolding CreateUnlock_existing [OF f0(1,2)]
    by (simp add: r' par un der commits)
  moreover have "RootKey c env3 (?f0\<lparr>encKey := Some kNew\<rparr>)
                   = (?f0\<lparr>encKey := Some kNew\<rparr>, Inr (K, defaultRootKeyID))"
    using RootKey_read [of "?f0\<lparr>encKey := Some kNew\<rparr>" kNew c env3] ne
    by (simp add: r' root dec commits)
  ultimately have two:
    "\<exists>f. CreateUnlock c env2 ?f0 (Some new) = (f, None) \<and>
         RootKey c env3 f = (f, Inr (K, defaultRootKeyID))"
    by blast

  have three: "old \<noteq> new \<longrightarrow>
      (\<exists>err. CreateUnlock c env4 ?f0 (Some old) = (?f0, Some (ErrExt err))) \<or>
      (\<exists>k' err. fst (CreateUnlock c env4 ?f0 (Some old)) = \<lparr>DB = DB r', encKey = Some k'\<rparr> \<and>
                 RootKey c env5 \<lparr>DB = DB r', encKey = Some k'\<rparr>
                   = (\<lparr>DB = DB r', encKey = Some k'\<rparr>, Inl (ErrExt err)))"
  proof
    assume neq: "old \<noteq> new"
    show "(\<exists>err. CreateUnlock c env4 ?f0 (Some old) = (?f0, Some (ErrExt err))) \<or>
      (\<exists>k' err. fst (CreateUnlock c env4 ?f0 (Some old)) = \<lparr>DB = DB r', encKey = Some k'\<rparr> \<and>
                 RootKey c env5 \<lparr>DB = DB r', encKey = Some k'\<rparr>
                   = (\<lparr>DB = DB r', encKey = Some k'\<rparr>, Inl (ErrExt err)))"
    proof (cases "sk_DeriveKey c k0' old")
      case (Inl err)
      then have "CreateUnlock c env4 ?f0 (Some old) = (?f0, Some (ErrExt err))"
        unfolding CreateUnlock_existing [OF f0(1,2)]
        by (simp add: r' par un)
      then show ?thesis by blast
    next
      case (Inr k')
      let ?g = "\<lparr>DB = DB r', encKey = Some k'\<rparr>"
      have unl: "fst (CreateUnlock c env4 ?f0 (Some old)) = ?g"
        unfolding CreateUnlock_existing [OF f0(1,2)]
        using Inr by (simp add: r' par un)
      from wrong kNew un neq Inr ct obtain err where "sk_Decrypt c k' ct = Inl err"
        by blast
      moreover have "encKey ?g = Some k'" "bucket_Get (DB ?g) defaultRootKeyID \<noteq> []"
        using ne by (simp_all add: r' root)
      ultimately have "RootKey c env5 ?g = (?g, Inl (ErrExt err))"
        using RootKey_read [of ?g k' c env5] by (simp add: r' root)
      with unl show ?thesis by blast
    qed
  qed
  from one two three show ?thesis by blast
qed

text \<open>The contract of claim C5 holds of the instance.\<close>

lemma byte_of_nat_inj:
  assumes "(of_nat a :: byte) = of_nat b" and "a < 256" and "b < 256"
  shows "a = b"
proof -
  from assms(1) have "unat (of_nat a :: byte) = unat (of_nat b :: byte)" by simp
  with assms(2,3) show ?thesis by (simp add: unat_of_nat)
qed

lemma box_Decrypt_unique:
  assumes "box_Decrypt k ct = Inr p" and "box_Decrypt k' ct = Inr p'"
  shows "p' = p"
proof (cases ct)
  case Nil
  with assms show ?thesis by (simp add: box_Decrypt_def)
next
  case (Cons n rest)
  with assms have "length (Key k) < 256" "n = of_nat (length (Key k))"
    "p = drop (length (Key k)) rest"
    and "length (Key k') < 256" "n = of_nat (length (Key k'))"
    "p' = drop (length (Key k')) rest"
    by (auto simp: box_Decrypt_def split: if_splits)
  moreover from this have "length (Key k') = length (Key k)"
    using byte_of_nat_inj by metis
  ultimately show ?thesis by simp
qed

lemma box_params:
  assumes "box_NewSecretKey pw = Inr k"
  shows "Parameters k \<noteq> [] \<and>
         (\<exists>k0. box_Unmarshal (Parameters k) = Inr k0 \<and> box_DeriveKey k0 pw = Inr k)"
  using assms by (auto simp: box_NewSecretKey_def box_Unmarshal_def box_DeriveKey_def)

theorem ChangePassword_preserves_root_key_witness:
  "ChangePassword box_snacl (box_env tx_ok []) testStore (Some [5]) (Some [6])
     = (changedStore, None) \<and>
   sk_Decrypt box_snacl (box_key [5]) (bucket_Get (DB testStore) defaultRootKeyID)
     = Inr [9, 9] \<and>
   RootKey box_snacl (box_env tx_ok []) changedStore
     = (changedStore, Inr ([9, 9], defaultRootKeyID)) \<and>
   (\<exists>f. CreateUnlock box_snacl (box_env tx_ok []) \<lparr>DB = DB changedStore, encKey = None\<rparr>
          (Some [6]) = (f, None) \<and>
        RootKey box_snacl (box_env tx_ok []) f = (f, Inr ([9, 9], defaultRootKeyID))) \<and>
   CreateUnlock box_snacl (box_env tx_ok []) \<lparr>DB = DB changedStore, encKey = None\<rparr> (Some [5])
     = (\<lparr>DB = DB changedStore, encKey = None\<rparr>, Some (ErrExt ErrInvalidPassword))"
proof -
  have unlocked: "encKey testStore = Some (box_key [5])"
    by (simp add: testStore_def)
  have holds: "sk_Decrypt box_snacl (box_key [5]) (bucket_Get (DB testStore) defaultRootKeyID)
                 = Inr [9, 9]"
    by (simp add: testStore_def box_snacl_def box_key_def bucket_Get_def box_Decrypt_def)
  have change: "ChangePassword box_snacl (box_env tx_ok []) testStore (Some [5]) (Some [6])
                  = (changedStore, None)"
    by (simp add: ChangePassword_def Update_def Let_def changedStore_def
        testStore_def box_key_def box_snacl_def box_env_def tx_ok_def bucket_Get_def
        bucket_Put_def encryptionKeyID_def defaultRootKeyID_def MaxKeySize_def MaxValueSize_def
        box_NewSecretKey_def box_Unmarshal_def box_DeriveKey_def box_Encrypt_def
        box_Decrypt_def copy_def)
  have enc: "\<forall>k p ct. sk_Encrypt (box_env tx_ok []) k p = Inr ct
               \<longrightarrow> sk_Decrypt box_snacl k ct = Inr p"
    by (simp add: box_env_def box_snacl_def box_Encrypt_Decrypt)
  have empty: "\<forall>k p. sk_Decrypt box_snacl k [] \<noteq> Inr p"
    by (simp add: box_snacl_def box_Decrypt_empty)
  have auth: "\<forall>k k' ct p p'. sk_Decrypt box_snacl k ct = Inr p
                \<longrightarrow> sk_Decrypt box_snacl k' ct = Inr p' \<longrightarrow> p' = p"
    using box_Decrypt_unique by (simp add: box_snacl_def)
  have params: "\<forall>pw k. NewSecretKey (box_env tx_ok []) pw = Inr k \<longrightarrow>
                   sk_Marshal box_snacl k \<noteq> [] \<and>
                   (\<exists>k0. sk_Unmarshal box_snacl (sk_Marshal box_snacl k) = Inr k0 \<and>
                         sk_DeriveKey box_snacl k0 pw = Inr k)"
    using box_params by (simp add: box_env_def box_snacl_def)
  have wrong: "\<forall>pw k k0 pw' k' p ct.
                  NewSecretKey (box_env tx_ok []) pw = Inr k \<longrightarrow>
                  sk_Unmarshal box_snacl (sk_Marshal box_snacl k) = Inr k0 \<longrightarrow>
                  pw' \<noteq> pw \<longrightarrow> sk_DeriveKey box_snacl k0 pw' = Inr k' \<longrightarrow>
                  sk_Encrypt (box_env tx_ok []) k p = Inr ct \<longrightarrow>
                  (\<exists>err. sk_Decrypt box_snacl k' ct = Inl err)"
    by (auto simp: box_env_def box_snacl_def box_NewSecretKey_def box_Unmarshal_def
        box_DeriveKey_def split: if_splits)
  have neq: "([5] :: bytes) \<noteq> [6]"
    by simp
  have commits: "commitErr (tx (box_env tx_ok [])) = None"
    by (simp add: box_env_def tx_ok_def)
  have old: "CreateUnlock box_snacl (box_env tx_ok []) \<lparr>DB = DB changedStore, encKey = None\<rparr>
               (Some [5])
             = (\<lparr>DB = DB changedStore, encKey = None\<rparr>, Some (ErrExt ErrInvalidPassword))"
    by (simp add: CreateUnlock_def Update_def Let_def changedStore_def box_snacl_def
        box_env_def tx_ok_def bucket_Get_def encryptionKeyID_def defaultRootKeyID_def
        box_Unmarshal_def box_DeriveKey_def)
  from ChangePassword_preserves_root_key
    [OF unlocked holds change enc empty auth params wrong commits commits commits,
     of "box_env tx_ok []" "box_env tx_ok []"]
  show ?thesis
    using change holds old neq by blast
qed

end
